theory Spec2Isabelle
  imports Complex_Main "HOL-Library.AList" "HOL-Library.Multiset"
begin

section \<open>Data model (src/types/question.ts, src/types/ai.ts)\<close>

text \<open>
  Strings are byte strings (UTF-8 where the source text is not ASCII). A timestamp is the
  number of milliseconds since the epoch: \<^verbatim>\<open>new Date().toISOString()\<close> and
  \<^verbatim>\<open>new Date(iso).getTime()\<close> are inverse to each other at that precision, so the
  ISO 8601 text the source stores is represented by the instant it denotes. A value of type
  \<^verbatim>\<open>T | null\<close> or an optional field is an \<open>option\<close>.
\<close>

datatype ProcessingStatus = pending | success | failed

datatype GradeLevel = elementary | middle | high

type_synonym timestamp = int

text \<open>
  The two properties of a \<^verbatim>\<open>File\<close> that validation reads: its declared MIME type and its
  size in bytes.
\<close>

record File =
  file_type :: string
  file_size :: nat

record ValidationResult =
  isValid :: bool
  errorMessage :: "string option"

record AIExtractionResponse =
  questionText :: string
  confidence :: real
  noiseFiltered :: bool
  errorMessage :: "string option"
  educationLevel :: GradeLevel

record Question =
  id :: string
  imageBase64 :: string
  fileSize :: nat
  fileFormat :: string
  extractedText :: string
  confidence :: real
  noiseFiltered :: bool
  processingStatus :: ProcessingStatus
  errorMessage :: "string option"
  uploadTimestamp :: timestamp
  confirmedAt :: "timestamp option"
  gradeLevel :: "GradeLevel option"
  subject :: "string option"

record StorageMetadata =
  createdAt :: timestamp
  lastModified :: timestamp
  totalQuestions :: int

text \<open>
  \<^verbatim>\<open>questions: Record<string, Question>\<close> is an association list in insertion order, the
  order in which \<^verbatim>\<open>Object.values\<close> enumerates the keys of a JavaScript object whose keys
  are not array indices (ids are UUIDs). Assigning to a present key keeps its position,
  assigning to an absent one appends (\<open>AList.update\<close>); \<^verbatim>\<open>delete\<close> removes the entry
  (\<open>AList.delete\<close>); reading a key is \<open>map_of\<close>.
\<close>

record LocalStorageSchema =
  version :: string
  questions :: "(string \<times> Question) list"
  metadata :: StorageMetadata

section \<open>JavaScript values and errors\<close>

text \<open>
  A thrown value: \<^verbatim>\<open>new Error(message)\<close>, an error of the AI client's SDK with its
  optional HTTP \<^verbatim>\<open>status\<close>, the \<^verbatim>\<open>SyntaxError\<close> of \<^verbatim>\<open>JSON.parse\<close>, a
  \<^verbatim>\<open>DOMException\<close> with its name, or the \<^verbatim>\<open>TypeError\<close> of an assignment that strict
  code (every module is strict code) makes to a property of a primitive value.
\<close>

datatype js_error =
    Error string
  | APIError "int option" string
  | SyntaxError string
  | DOMException string string
  | TypeError string

fun status :: "js_error \<Rightarrow> int option" where
  "status (APIError s m) = s"
| "status (Error m) = None"
| "status (SyntaxError m) = None"
| "status (DOMException n m) = None"
| "status (TypeError m) = None"

fun message :: "js_error \<Rightarrow> string" where
  "message (APIError s m) = m"
| "message (Error m) = m"
| "message (SyntaxError m) = m"
| "message (DOMException n m) = m"
| "message (TypeError m) = m"

text \<open>Truthiness of a \<^verbatim>\<open>string | null\<close> value: \<^verbatim>\<open>null\<close> and \<^verbatim>\<open>""\<close> are falsy.\<close>

fun truthy :: "string option \<Rightarrow> bool" where
  "truthy None = False"
| "truthy (Some s) = (s \<noteq> [])"

text \<open>
  The primitive values the store's field assignments write (a timestamp is the ISO 8601
  string of an instant, which is never empty), and their truthiness.
\<close>

datatype js_prim = PString string | PDate timestamp | PNumber real | PBoolean bool | PNull

fun truthy_prim :: "js_prim \<Rightarrow> bool" where
  "truthy_prim (PString s) = (s \<noteq> [])"
| "truthy_prim (PDate t) = True"
| "truthy_prim (PNumber x) = (x \<noteq> 0)"
| "truthy_prim (PBoolean b) = b"
| "truthy_prim PNull = False"

text \<open>Decimal rendering of a number inside a template literal.\<close>

definition digit_char :: "nat \<Rightarrow> char" where
  "digit_char d = char_of (48 + d)"

fun show_nat :: "nat \<Rightarrow> string" where
  "show_nat n = (if n < 10 then [digit_char n] else show_nat (n div 10) @ [digit_char (n mod 10)])"

declare show_nat.simps [simp del]

definition show_int :: "int \<Rightarrow> string" where
  "show_int i = (if i < 0 then CHR ''-'' # show_nat (nat (- i)) else show_nat (nat i))"

section \<open>Local store: schema management (src/lib/storage/schema.ts)\<close>

text \<open>
  The environment of the store: whether \<^verbatim>\<open>window\<close> is defined, what
  \<^verbatim>\<open>localStorage.setItem\<close> throws when asked to write the container (\<open>setData\<close>) and
  the version key (\<open>setVersion\<close>), the successive readings of the clock and the successive
  results of \<^verbatim>\<open>crypto.randomUUID()\<close> (UUIDs), and the message the engine gives the
  \<^verbatim>\<open>TypeError\<close> of an assignment to a property (first argument) of a primitive value
  (second argument). The world is what the operations change: the container held under
  the storage key (\<open>None\<close> when the key is absent; the JSON text is represented by the
  container it encodes), how many clock readings and UUIDs have been consumed, and the
  properties that assignments have put on \<^verbatim>\<open>Object.prototype\<close>, which live as long as the
  page. The version key is written and never read, so it is not part of the world.
\<close>

record env =
  window_defined :: bool
  setData :: "LocalStorageSchema \<Rightarrow> js_error option"
  setVersion :: "js_error option"
  clock :: "nat \<Rightarrow> timestamp"
  randomUUID :: "nat \<Rightarrow> string"
  assignment_TypeError :: "string \<Rightarrow> js_prim \<Rightarrow> string"

record world =
  localStorage :: "LocalStorageSchema option"
  clock_reads :: nat
  uuid_draws :: nat
  prototype_fields :: "(string \<times> js_prim) list"

definition CURRENT_VERSION :: string where
  "CURRENT_VERSION = ''1.0.0''"

definition new_Date :: "env \<Rightarrow> world \<Rightarrow> timestamp \<times> world" where
  "new_Date e w = (clock e (clock_reads w), w\<lparr>clock_reads := Suc (clock_reads w)\<rparr>)"

definition crypto_randomUUID :: "env \<Rightarrow> world \<Rightarrow> string \<times> world" where
  "crypto_randomUUID e w = (randomUUID e (uuid_draws w), w\<lparr>uuid_draws := Suc (uuid_draws w)\<rparr>)"

definition initializeStorage :: "env \<Rightarrow> world \<Rightarrow> (js_error + LocalStorageSchema) \<times> world" where
  "initializeStorage e w =
     (if \<not> window_defined e
      then (Inl (Error ''Storage can only be initialized in browser environment''), w)
      else case localStorage w of
        Some schema \<Rightarrow>
          (if version schema \<noteq> CURRENT_VERSION
           then (Inl (Error (''Schema migration needed: '' @ version schema
                   @ [CHR '' '', CHR 0xE2, CHR 0x86, CHR 0x92, CHR '' ''] @ CURRENT_VERSION)), w)
           else (Inr schema, w))
      | None \<Rightarrow>
          (let (t1, w1) = new_Date e w;
               (t2, w2) = new_Date e w1;
               newSchema = \<lparr>version = ''1.0.0'', questions = [],
                 metadata = \<lparr>createdAt = t1, lastModified = t2, totalQuestions = 0\<rparr>\<rparr>
           in case setData e newSchema of
                Some err \<Rightarrow> (Inl err, w2)
              | None \<Rightarrow>
                  (case setVersion e of
                     Some err \<Rightarrow> (Inl err, w2\<lparr>localStorage := Some newSchema\<rparr>)
                   | None \<Rightarrow> (Inr newSchema, w2\<lparr>localStorage := Some newSchema\<rparr>))))"

definition getSchema :: "env \<Rightarrow> world \<Rightarrow> (js_error + LocalStorageSchema) \<times> world" where
  "getSchema e w =
     (if \<not> window_defined e
      then (let (t1, w1) = new_Date e w;
                (t2, w2) = new_Date e w1
            in (Inr \<lparr>version = ''1.0.0'', questions = [],
                  metadata = \<lparr>createdAt = t1, lastModified = t2, totalQuestions = 0\<rparr>\<rparr>, w2))
      else case localStorage w of
        None \<Rightarrow> initializeStorage e w
      | Some schema \<Rightarrow> (Inr schema, w))"

text \<open>
  \<^verbatim>\<open>saveSchema\<close> replaces a \<^verbatim>\<open>QuotaExceededError\<close> by its own error and rethrows
  anything else. A write of the container that succeeds stays written when the write of the
  version key then throws.
\<close>

fun quota_handler :: "js_error \<Rightarrow> js_error" where
  "quota_handler (DOMException n m) =
     (if n = ''QuotaExceededError''
      then Error ''Storage is full. Please delete old questions to make space.''
      else DOMException n m)"
| "quota_handler err = err"

definition saveSchema :: "env \<Rightarrow> LocalStorageSchema \<Rightarrow> world \<Rightarrow> (js_error + unit) \<times> world" where
  "saveSchema e schema w =
     (if \<not> window_defined e
      then (Inl (Error ''Cannot save schema in non-browser environment''), w)
      else case setData e schema of
             Some err \<Rightarrow> (Inl (quota_handler err), w)
           | None \<Rightarrow>
               (case setVersion e of
                  Some err \<Rightarrow> (Inl (quota_handler err), w\<lparr>localStorage := Some schema\<rparr>)
                | None \<Rightarrow> (Inr (), w\<lparr>localStorage := Some schema\<rparr>)))"

section \<open>Local store: question operations (src/lib/storage/questions.ts)\<close>

text \<open>
  Reading \<^verbatim>\<open>schema.questions[id]\<close>. The questions object is a plain object, so a name that
  is not one of its own keys is looked up on \<^verbatim>\<open>Object.prototype\<close>: \<^verbatim>\<open>__proto__\<close> gives
  that prototype itself, a name that an earlier assignment has put there gives the
  primitive value assigned, the name of one of its methods gives that function, and any
  other name gives \<^verbatim>\<open>undefined\<close>.
\<close>

datatype member = Own Question | Prototype | Method | Primitive js_prim | Undefined

definition OBJECT_PROTOTYPE_METHODS :: "string list" where
  "OBJECT_PROTOTYPE_METHODS =
     [''constructor'', ''hasOwnProperty'', ''isPrototypeOf'', ''propertyIsEnumerable'',
      ''toLocaleString'', ''toString'', ''valueOf'', ''__defineGetter__'', ''__defineSetter__'',
      ''__lookupGetter__'', ''__lookupSetter__'']"

definition questions_get :: "world \<Rightarrow> LocalStorageSchema \<Rightarrow> string \<Rightarrow> member" where
  "questions_get w schema k =
     (case map_of (questions schema) k of
        Some q \<Rightarrow> Own q
      | None \<Rightarrow>
          if k = ''__proto__'' then Prototype
          else (case map_of (prototype_fields w) k of
                  Some v \<Rightarrow> Primitive v
                | None \<Rightarrow> if k \<in> set OBJECT_PROTOTYPE_METHODS then Method else Undefined))"

fun truthy_member :: "member \<Rightarrow> bool" where
  "truthy_member Undefined = False"
| "truthy_member (Primitive v) = truthy_prim v"
| "truthy_member m = True"

text \<open>An assignment \<^verbatim>\<open>Object.prototype[k] = v\<close>, as the world records it.\<close>

definition prototype_set :: "string \<Rightarrow> js_prim \<Rightarrow> world \<Rightarrow> world" where
  "prototype_set k v w = w\<lparr>prototype_fields := AList.update k v (prototype_fields w)\<rparr>"

definition createQuestion ::
  "env \<Rightarrow> string \<Rightarrow> nat \<Rightarrow> string \<Rightarrow> AIExtractionResponse \<Rightarrow> world \<Rightarrow> (js_error + string) \<times> world" where
  "createQuestion e img fsize fformat extractionResponse w =
     (case getSchema e w of
        (Inl err, w0) \<Rightarrow> (Inl err, w0)
      | (Inr schema, w0) \<Rightarrow>
          (let (questionId, w1) = crypto_randomUUID e w0;
               (now, w2) = new_Date e w1;
               question = \<lparr>id = questionId, imageBase64 = img, fileSize = fsize,
                 fileFormat = fformat,
                 extractedText = questionText extractionResponse,
                 confidence = AIExtractionResponse.confidence extractionResponse,
                 noiseFiltered = AIExtractionResponse.noiseFiltered extractionResponse,
                 processingStatus =
                   (if truthy (AIExtractionResponse.errorMessage extractionResponse)
                    then failed else pending),
                 errorMessage = AIExtractionResponse.errorMessage extractionResponse,
                 uploadTimestamp = now, confirmedAt = None,
                 gradeLevel = Some (educationLevel extractionResponse), subject = None\<rparr>;
               schema' = schema\<lparr>questions := AList.update questionId question (questions schema),
                 metadata := (metadata schema)\<lparr>totalQuestions := totalQuestions (metadata schema) + 1,
                   lastModified := now\<rparr>\<rparr>
           in case saveSchema e schema' w2 of
                (Inl err, w3) \<Rightarrow> (Inl err, w3)
              | (Inr u, w3) \<Rightarrow> (Inr questionId, w3)))"

definition getAllQuestions :: "env \<Rightarrow> world \<Rightarrow> (js_error + Question list) \<times> world" where
  "getAllQuestions e w =
     (case getSchema e w of
        (Inl err, w0) \<Rightarrow> (Inl err, w0)
      | (Inr schema, w0) \<Rightarrow> (Inr (map snd (questions schema)), w0))"

definition getQuestionById :: "env \<Rightarrow> string \<Rightarrow> world \<Rightarrow> (js_error + Question option) \<times> world" where
  "getQuestionById e qid w =
     (case getSchema e w of
        (Inl err, w0) \<Rightarrow> (Inl err, w0)
      | (Inr schema, w0) \<Rightarrow> (Inr (map_of (questions schema) qid), w0))"

text \<open>
  \<^verbatim>\<open>confirmQuestion\<close>, \<^verbatim>\<open>updateExtraction\<close> and \<^verbatim>\<open>deleteQuestion\<close> throw
  \<^verbatim>\<open>Question not found\<close> when what they read under the id is falsy. What they read
  otherwise need not be a question. The assignments to its fields change the record when
  it is one; on \<^verbatim>\<open>Object.prototype\<close> they put the fields there; on a function they have no
  effect that the store can see; on a primitive value the first of them throws, after its
  right-hand side has been evaluated.
\<close>

definition confirmQuestion :: "env \<Rightarrow> string \<Rightarrow> world \<Rightarrow> (js_error + unit) \<times> world" where
  "confirmQuestion e qid w =
     (case getSchema e w of
        (Inl err, w0) \<Rightarrow> (Inl err, w0)
      | (Inr schema, w0) \<Rightarrow>
          (case questions_get w0 schema qid of
             Undefined \<Rightarrow> (Inl (Error (''Question not found: '' @ qid)), w0)
           | Own question \<Rightarrow>
               (let (t1, w1) = new_Date e w0;
                    (t2, w2) = new_Date e w1;
                    question' = question\<lparr>confirmedAt := Some t1, processingStatus := success\<rparr>;
                    schema' = schema\<lparr>questions := AList.update qid question' (questions schema),
                      metadata := (metadata schema)\<lparr>lastModified := t2\<rparr>\<rparr>
                in saveSchema e schema' w2)
           | Primitive v \<Rightarrow>
               if \<not> truthy_prim v
               then (Inl (Error (''Question not found: '' @ qid)), w0)
               else (let (t1, w1) = new_Date e w0
                     in (Inl (TypeError (assignment_TypeError e ''confirmedAt'' v)), w1))
           | Prototype \<Rightarrow>
               (let (t1, w1) = new_Date e w0;
                    w1' = prototype_set ''processingStatus'' (PString ''success'')
                            (prototype_set ''confirmedAt'' (PDate t1) w1);
                    (t2, w2) = new_Date e w1'
                in saveSchema e (schema\<lparr>metadata := (metadata schema)\<lparr>lastModified := t2\<rparr>\<rparr>) w2)
           | Method \<Rightarrow>
               (let (t1, w1) = new_Date e w0;
                    (t2, w2) = new_Date e w1
                in saveSchema e (schema\<lparr>metadata := (metadata schema)\<lparr>lastModified := t2\<rparr>\<rparr>) w2)))"

definition updateExtraction ::
  "env \<Rightarrow> string \<Rightarrow> AIExtractionResponse \<Rightarrow> world \<Rightarrow> (js_error + unit) \<times> world" where
  "updateExtraction e qid extractionResponse w =
     (case getSchema e w of
        (Inl err, w0) \<Rightarrow> (Inl err, w0)
      | (Inr schema, w0) \<Rightarrow>
          (case questions_get w0 schema qid of
             Undefined \<Rightarrow> (Inl (Error (''Question not found: '' @ qid)), w0)
           | Own question \<Rightarrow>
               (let (t, w1) = new_Date e w0;
                    question' = question\<lparr>
                      extractedText := questionText extractionResponse,
                      confidence := AIExtractionResponse.confidence extractionResponse,
                      noiseFiltered := AIExtractionResponse.noiseFiltered extractionResponse,
                      errorMessage := AIExtractionResponse.errorMessage extractionResponse,
                      processingStatus :=
                        (if truthy (AIExtractionResponse.errorMessage extractionResponse)
                         then failed else pending)\<rparr>;
                    schema' = schema\<lparr>questions := AList.update qid question' (questions schema),
                      metadata := (metadata schema)\<lparr>lastModified := t\<rparr>\<rparr>
                in saveSchema e schema' w1)
           | Primitive v \<Rightarrow>
               if \<not> truthy_prim v
               then (Inl (Error (''Question not found: '' @ qid)), w0)
               else (Inl (TypeError (assignment_TypeError e ''extractedText'' v)), w0)
           | Prototype \<Rightarrow>
               (let w0' =
                      prototype_set ''processingStatus''
                        (PString (if truthy (AIExtractionResponse.errorMessage extractionResponse)
                                  then ''failed'' else ''pending''))
                        (prototype_set ''errorMessage''
                           (case AIExtractionResponse.errorMessage extractionResponse of
                              None \<Rightarrow> PNull | Some m \<Rightarrow> PString m)
                           (prototype_set ''noiseFiltered''
                              (PBoolean (AIExtractionResponse.noiseFiltered extractionResponse))
                              (prototype_set ''confidence''
                                 (PNumber (AIExtractionResponse.confidence extractionResponse))
                                 (prototype_set ''extractedText''
                                    (PString (questionText extractionResponse)) w0))));
                    (t, w1) = new_Date e w0'
                in saveSchema e (schema\<lparr>metadata := (metadata schema)\<lparr>lastModified := t\<rparr>\<rparr>) w1)
           | Method \<Rightarrow>
               (let (t, w1) = new_Date e w0
                in saveSchema e (schema\<lparr>metadata := (metadata schema)\<lparr>lastModified := t\<rparr>\<rparr>) w1)))"

text \<open>
  \<^verbatim>\<open>deleteQuestion\<close> assigns nothing to what it reads: \<^verbatim>\<open>delete\<close> removes an own key and
  does nothing for a name that is not one, and the count goes down either way.
\<close>

definition deleteQuestion :: "env \<Rightarrow> string \<Rightarrow> world \<Rightarrow> (js_error + unit) \<times> world" where
  "deleteQuestion e qid w =
     (case getSchema e w of
        (Inl err, w0) \<Rightarrow> (Inl err, w0)
      | (Inr schema, w0) \<Rightarrow>
          if \<not> truthy_member (questions_get w0 schema qid)
          then (Inl (Error (''Question not found: '' @ qid)), w0)
          else
            (let (t, w1) = new_Date e w0;
                 schema' = schema\<lparr>questions := AList.delete qid (questions schema),
                   metadata := (metadata schema)\<lparr>totalQuestions := totalQuestions (metadata schema) - 1,
                     lastModified := t\<rparr>\<rparr>
             in saveSchema e schema' w1))"

definition clearAllQuestions :: "env \<Rightarrow> world \<Rightarrow> (js_error + unit) \<times> world" where
  "clearAllQuestions e w =
     (case getSchema e w of
        (Inl err, w0) \<Rightarrow> (Inl err, w0)
      | (Inr schema, w0) \<Rightarrow>
          (let (t, w1) = new_Date e w0;
               schema' = schema\<lparr>questions := [],
                 metadata := (metadata schema)\<lparr>totalQuestions := 0, lastModified := t\<rparr>\<rparr>
           in saveSchema e schema' w1))"

text \<open>
  \<^verbatim>\<open>new Date(x).getTime()\<close> of a stored timestamp; \<^verbatim>\<open>new Date(null)\<close> is the epoch.
\<close>

definition Date_getTime :: "timestamp option \<Rightarrow> int" where
  "Date_getTime t = (case t of None \<Rightarrow> 0 | Some ms \<Rightarrow> ms)"

text \<open>
  \<^verbatim>\<open>Array.prototype.sort\<close> with a comparator is a stable sort: with a consistent comparator
  its result is the one that insertion from the right produces, an element going before
  the elements it does not compare greater than.
\<close>

fun insert_sorted :: "('a \<Rightarrow> 'a \<Rightarrow> int) \<Rightarrow> 'a \<Rightarrow> 'a list \<Rightarrow> 'a list" where
  "insert_sorted cmp x [] = [x]"
| "insert_sorted cmp x (y # ys) = (if cmp x y \<le> 0 then x # y # ys else y # insert_sorted cmp x ys)"

definition Array_sort :: "('a \<Rightarrow> 'a \<Rightarrow> int) \<Rightarrow> 'a list \<Rightarrow> 'a list" where
  "Array_sort cmp xs = foldr (insert_sorted cmp) xs []"

definition getQuestionsByStatus ::
  "env \<Rightarrow> ProcessingStatus \<Rightarrow> world \<Rightarrow> (js_error + Question list) \<times> world" where
  "getQuestionsByStatus e st w =
     (case getSchema e w of
        (Inl err, w0) \<Rightarrow> (Inl err, w0)
      | (Inr schema, w0) \<Rightarrow>
          (Inr (filter (\<lambda>q. processingStatus q = st) (map snd (questions schema))), w0))"

definition getConfirmedQuestions :: "env \<Rightarrow> world \<Rightarrow> (js_error + Question list) \<times> world" where
  "getConfirmedQuestions e w =
     (case getSchema e w of
        (Inl err, w0) \<Rightarrow> (Inl err, w0)
      | (Inr schema, w0) \<Rightarrow>
          (Inr (Array_sort (\<lambda>a b. Date_getTime (confirmedAt b) - Date_getTime (confirmedAt a))
                  (filter (\<lambda>q. confirmedAt q \<noteq> None) (map snd (questions schema)))), w0))"

subsection \<open>Sequences of store operations\<close>

datatype store_op =
    Create string nat string AIExtractionResponse
  | Confirm string
  | UpdateExtraction string AIExtractionResponse
  | Delete string
  | ClearAll

text \<open>The world an operation leaves behind, whether it returns or throws.\<close>

fun apply_op :: "env \<Rightarrow> store_op \<Rightarrow> world \<Rightarrow> world" where
  "apply_op e (Create img fsize fformat r) w = snd (createQuestion e img fsize fformat r w)"
| "apply_op e (Confirm qid) w = snd (confirmQuestion e qid w)"
| "apply_op e (UpdateExtraction qid r) w = snd (updateExtraction e qid r w)"
| "apply_op e (Delete qid) w = snd (deleteQuestion e qid w)"
| "apply_op e ClearAll w = snd (clearAllQuestions e w)"

fun run :: "env \<Rightarrow> store_op list \<Rightarrow> world \<Rightarrow> world" where
  "run e [] w = w"
| "run e (op # ops) w = run e ops (apply_op e op w)"

text \<open>
  A page just loaded with nothing stored yet: the container is created on first access.
\<close>

definition fresh :: world where
  "fresh = \<lparr>localStorage = None, clock_reads = 0, uuid_draws = 0, prototype_fields = []\<rparr>"

definition stored_records :: "world \<Rightarrow> Question list" where
  "stored_records w = (case localStorage w of None \<Rightarrow> [] | Some schema \<Rightarrow> map snd (questions schema))"

definition stored_question :: "world \<Rightarrow> string \<Rightarrow> Question option" where
  "stored_question w qid = (case localStorage w of None \<Rightarrow> None | Some schema \<Rightarrow> map_of (questions schema) qid)"

text \<open>The two record invariants of the data model, as the specification words them.\<close>

definition confirmed_implies_success :: "Question \<Rightarrow> bool" where
  "confirmed_implies_success q = (confirmedAt q \<noteq> None \<longrightarrow> processingStatus q = success)"

definition failed_iff_error :: "Question \<Rightarrow> bool" where
  "failed_iff_error q = (processingStatus q = failed \<longleftrightarrow> errorMessage q \<noteq> None)"

text \<open>
  What the operations maintain instead of \<open>failed_iff_error\<close>: as long as a record is not
  in status \<open>success\<close>, it is \<open>failed\<close> exactly when its error message is neither
  \<^verbatim>\<open>null\<close> nor empty.
\<close>

definition failed_iff_truthy_error_unless_success :: "Question \<Rightarrow> bool" where
  "failed_iff_truthy_error_unless_success q =
     (processingStatus q \<noteq> success \<longrightarrow> (processingStatus q = failed \<longleftrightarrow> truthy (errorMessage q)))"

text \<open>
  A sequence of operations in which \<^verbatim>\<open>updateExtraction\<close> is only ever applied to an id
  whose stored record, if there is one, has not been confirmed.
\<close>

fun updates_unconfirmed_only :: "env \<Rightarrow> store_op list \<Rightarrow> world \<Rightarrow> bool" where
  "updates_unconfirmed_only e [] w = True"
| "updates_unconfirmed_only e (op # ops) w =
     ((case op of
         UpdateExtraction qid r \<Rightarrow>
           (case stored_question w qid of None \<Rightarrow> True | Some q \<Rightarrow> confirmedAt q = None)
       | _ \<Rightarrow> True)
      \<and> updates_unconfirmed_only e ops (apply_op e op w))"

section \<open>Validator and compressor (src/lib/validation/imageValidator.ts)\<close>

definition SUPPORTED_FORMATS :: "string list" where
  "SUPPORTED_FORMATS = [''image/jpeg'', ''image/png'', ''image/webp'']"

definition MAX_FILE_SIZE :: nat where
  "MAX_FILE_SIZE = 5 * 1024 * 1024"

text \<open>
  \<^verbatim>\<open>Number.prototype.toFixed(f)\<close> on a number \<open>0 \<le> x < 10\<^sup>2\<^sup>1\<close>, as ECMAScript defines it:
  \<open>n\<close> is the integer for which \<open>n / 10\<^sup>f - x\<close> is closest to zero, the larger one of two;
  its decimal digits are padded with zeros on the left to \<open>f + 1\<close> digits and the point goes
  before the last \<open>f\<close> of them.
\<close>

definition Number_toFixed :: "nat \<Rightarrow> rat \<Rightarrow> string" where
  "Number_toFixed f x =
     (let n = nat \<lfloor>x * 10 ^ f + 1 / 2\<rfloor>;
          m = show_nat n
      in if f = 0 then m
         else (let m' = (if length m \<le> f then replicate (f + 1 - length m) (CHR ''0'') @ m else m);
                   k = length m'
               in take (k - f) m' @ ''.'' @ drop (k - f) m'))"

definition validateImageFormat :: "File \<Rightarrow> ValidationResult" where
  "validateImageFormat file =
     (if file_type file \<notin> set SUPPORTED_FORMATS
      then \<lparr>isValid = False,
             ValidationResult.errorMessage = Some (''Invalid file format. Please upload an image file (JPEG, PNG, or WebP). Your file type: '' @ file_type file)\<rparr>
      else \<lparr>isValid = True, ValidationResult.errorMessage = None\<rparr>)"

text \<open>
  \<^verbatim>\<open>file.size / (1024 * 1024)\<close> divides an integer by a power of two, which binary floating
  point does without rounding, so the quotient the source formats is the rational one. A
  file's size is far below the \<open>10\<^sup>2\<^sup>1\<close> MiB from which \<^verbatim>\<open>toFixed\<close> changes notation.
\<close>

definition validateImageSize :: "File \<Rightarrow> ValidationResult" where
  "validateImageSize file =
     (if file_size file > MAX_FILE_SIZE
      then (let sizeMB = Number_toFixed 2 (of_nat (file_size file) / (1024 * 1024))
            in \<lparr>isValid = False,
                 ValidationResult.errorMessage = Some (''Image is too large ('' @ sizeMB @ ''MB). Please use an image under 5MB.'')\<rparr>)
      else \<lparr>isValid = True, ValidationResult.errorMessage = None\<rparr>)"

definition validateImage :: "File \<Rightarrow> ValidationResult" where
  "validateImage file =
     (let formatResult = validateImageFormat file
      in if \<not> isValid formatResult then formatResult
         else (let sizeResult = validateImageSize file
               in if \<not> isValid sizeResult then sizeResult
                  else \<lparr>isValid = True, ValidationResult.errorMessage = None\<rparr>))"

text \<open>
  The dimensions \<^verbatim>\<open>compressImage\<close> computes from the decoded image's width and height
  (both of type \<^verbatim>\<open>unsigned long\<close>). The two floating-point operations of each
  branch round their exact result; \<open>rnd\<close> is that rounding. The canvas takes the computed
  numbers as \<^verbatim>\<open>unsigned long\<close>: truncated towards zero, modulo \<open>2\<^sup>3\<^sup>2\<close>.
\<close>

record dimensions =
  width :: real
  height :: real
  canvas_width :: nat
  canvas_height :: nat

definition to_unsigned_long :: "real \<Rightarrow> nat" where
  "to_unsigned_long x = nat ((if 0 \<le> x then \<lfloor>x\<rfloor> else \<lceil>x\<rceil>) mod 2 ^ 32)"

definition compressImage_dimensions :: "(real \<Rightarrow> real) \<Rightarrow> nat \<Rightarrow> nat \<Rightarrow> dimensions" where
  "compressImage_dimensions rnd img_width img_height =
     (let w0 = real img_width;
          h0 = real img_height;
          maxDimension = 1200;
          (w1, h1) =
            (if w0 > maxDimension \<or> h0 > maxDimension
             then (if w0 > h0
                   then (maxDimension, rnd (rnd (h0 / w0) * maxDimension))
                   else (rnd (rnd (w0 / h0) * maxDimension), maxDimension))
             else (w0, h0))
      in \<lparr>width = w1, height = h1,
           canvas_width = to_unsigned_long w1, canvas_height = to_unsigned_long h1\<rparr>)"

section \<open>Extraction client (src/lib/ai/client.ts, src/lib/ai/extraction.ts)\<close>

text \<open>
  The credential is read from two environment variables, either of which may be undefined.
\<close>

definition isApiKeyConfigured :: "string option \<Rightarrow> string option \<Rightarrow> bool" where
  "isApiKeyConfigured public_key private_key =
     truthy (if truthy public_key then public_key else private_key)"

text \<open>
  What one call of \<^verbatim>\<open>aiClient.chat.completions.create\<close> does: it throws, or it returns a
  response whose \<^verbatim>\<open>choices[0]?.message?.content\<close> is a string or is missing. A run of
  the client records its result, the number of calls it made to the service and the
  delays it waited, in milliseconds and in order.
\<close>

datatype service_reply = Throws js_error | Responds "string option"

record extraction_run =
  outcome :: "js_error + AIExtractionResponse"
  network_calls :: nat
  sleeps :: "nat list"

definition MOCK_QUESTION_TEXT :: string where
  "MOCK_QUESTION_TEXT = [
    CHR ''1'', CHR ''.'', CHR '' '', CHR 0xE4, CHR 0xB8, CHR 0x8B, CHR 0xE5, CHR 0x88,
    CHR 0x97, CHR 0xE7, CHR 0x89, CHR 0xA9, CHR 0xE8, CHR 0xB4, CHR 0xA8, CHR 0xE4,
    CHR 0xB8, CHR 0xAD, CHR 0xEF, CHR 0xBC, CHR 0x8C, CHR 0xE5, CHR 0xB1, CHR 0x9E,
    CHR 0xE4, CHR 0xBA, CHR 0x8E, CHR 0xE7, CHR 0xBA, CHR 0xAF, CHR 0xE5, CHR 0x87,
    CHR 0x80, CHR 0xE7, CHR 0x89, CHR 0xA9, CHR 0xE7, CHR 0x9A, CHR 0x84, CHR 0xE6,
    CHR 0x98, CHR 0xAF, CHR 0xEF, CHR 0xBC, CHR 0x88, CHR '' '', CHR '' '', CHR 0xEF,
    CHR 0xBC, CHR 0x89, CHR 0x0A, CHR ''A'', CHR ''.'', CHR '' '', CHR 0xE7, CHR 0xA9,
    CHR 0xBA, CHR 0xE6, CHR 0xB0, CHR 0x94, CHR 0x0A, CHR ''B'', CHR ''.'', CHR '' '',
    CHR 0xE7, CHR 0x9B, CHR 0x90, CHR 0xE6, CHR 0xB0, CHR 0xB4, CHR 0x0A, CHR ''C'',
    CHR ''.'', CHR '' '', CHR 0xE8, CHR 0x92, CHR 0xB8, CHR 0xE9, CHR 0xA6, CHR 0x8F,
    CHR 0xE6, CHR 0xB0, CHR 0xB4, CHR 0x0A, CHR ''D'', CHR ''.'', CHR '' '', CHR 0xE7,
    CHR 0x9F, CHR 0xBF, CHR 0xE6, CHR 0xB3, CHR 0x89, CHR 0xE6, CHR 0xB0, CHR 0xB4]"

definition mockExtraction :: "GradeLevel \<Rightarrow> extraction_run" where
  "mockExtraction lvl =
     \<lparr>outcome = Inr \<lparr>questionText = MOCK_QUESTION_TEXT, confidence = 0.95, noiseFiltered = True,
                      errorMessage = None, educationLevel = lvl\<rparr>,
      network_calls = 0, sleeps = [1500]\<rparr>"

text \<open>
  The retry loop. The request is the same at every attempt, so the service is given by
  its reply to each successive call; \<open>JSON_parse\<close> is \<^verbatim>\<open>JSON.parse\<close>, which returns
  the parsed result (\<open>Inr\<close>) or throws a \<^verbatim>\<open>SyntaxError\<close> with a message (\<open>Inl\<close>).
\<close>

function retry_loop ::
  "(string \<Rightarrow> string + AIExtractionResponse) \<Rightarrow> (nat \<Rightarrow> service_reply) \<Rightarrow> int
     \<Rightarrow> nat \<Rightarrow> js_error option \<Rightarrow> nat \<Rightarrow> nat list \<Rightarrow> extraction_run" where
  "retry_loop JSON_parse service maxRetries attempt lastError calls slept =
     (if int attempt < maxRetries
      then (case (case service calls of
                    Throws err \<Rightarrow> Inl err
                  | Responds content \<Rightarrow>
                      (case content of
                         None \<Rightarrow> Inl (Error ''Empty response from AI'')
                       | Some c \<Rightarrow>
                           if c = [] then Inl (Error ''Empty response from AI'')
                           else (case JSON_parse c of
                                   Inl m \<Rightarrow> Inl (SyntaxError m)
                                 | Inr result \<Rightarrow> Inr result))) of
              Inr result \<Rightarrow> \<lparr>outcome = Inr result, network_calls = Suc calls, sleeps = slept\<rparr>
            | Inl err \<Rightarrow>
                if status err = Some 401
                then \<lparr>outcome = Inl (Error ''API key is invalid. Please check your configuration.''),
                       network_calls = Suc calls, sleeps = slept\<rparr>
                else if status err = Some 429
                        \<or> (case status err of None \<Rightarrow> False | Some s \<Rightarrow> s \<noteq> 0 \<and> 500 \<le> s)
                then retry_loop JSON_parse service maxRetries (Suc attempt) (Some err) (Suc calls)
                       (slept @ [min (1000 * 2 ^ attempt) 10000])
                else \<lparr>outcome = Inl err, network_calls = Suc calls, sleeps = slept\<rparr>)
      else \<lparr>outcome = Inl (Error (''Failed after '' @ show_int maxRetries @ '' attempts: ''
                @ (case lastError of None \<Rightarrow> ''undefined'' | Some err \<Rightarrow> message err))),
             network_calls = calls, sleeps = slept\<rparr>)"
  by pat_completeness auto
termination
  by (relation "measure (\<lambda>(p, s, maxRetries, attempt, l, c, d). nat (maxRetries - int attempt))") auto

declare retry_loop.simps [simp del]

definition extractQuestionFromImage ::
  "string option \<Rightarrow> string option \<Rightarrow> (string \<Rightarrow> string + AIExtractionResponse)
     \<Rightarrow> (nat \<Rightarrow> service_reply) \<Rightarrow> string \<Rightarrow> GradeLevel \<Rightarrow> int \<Rightarrow> extraction_run" where
  "extractQuestionFromImage public_key private_key JSON_parse service img lvl maxRetries =
     (if \<not> isApiKeyConfigured public_key private_key
      then mockExtraction lvl
      else retry_loop JSON_parse service maxRetries 0 None 0 [])"

text \<open>
  The errors the specification calls rate-limited or server errors: status 429, or a status
  of 500 or more.
\<close>

definition rate_limit_or_server_error :: "js_error \<Rightarrow> bool" where
  "rate_limit_or_server_error err =
     (case status err of None \<Rightarrow> False | Some s \<Rightarrow> s = 429 \<or> 500 \<le> s)"

section \<open>What the specification asks of the validator's size message\<close>

text \<open>
  A size in bytes as hundredths of a MiB, rounded to the nearest hundredth (half up), and
  the decimal numeral with two decimals that a number of hundredths denotes.
\<close>

definition hundredths_of_MiB :: "nat \<Rightarrow> nat" where
  "hundredths_of_MiB bytes = (bytes * 100 + 524288) div 1048576"

definition decimal_2dp :: "nat \<Rightarrow> string" where
  "decimal_2dp n = show_nat (n div 100) @ ''.'' @ [digit_char (n div 10 mod 10), digit_char (n mod 10)]"

section \<open>Example inputs\<close>

text \<open>
  A browser whose storage accepts every write, with a clock that advances by one
  millisecond per reading and ids numbered in the order they are drawn; the extraction
  result of the specification's scenario, with a given error message; a service that
  gives a fixed list of replies and then a fallback; a parser that accepts one payload.
\<close>

definition example_env :: env where
  "example_env = \<lparr>window_defined = True, setData = (\<lambda>schema. None), setVersion = None,
     clock = (\<lambda>n. 1000 + int n), randomUUID = (\<lambda>n. ''id-'' @ show_nat n),
     assignment_TypeError = (\<lambda>property v. ''Cannot create property '' @ property)\<rparr>"

definition example_result :: "string option \<Rightarrow> AIExtractionResponse" where
  "example_result msg = \<lparr>questionText = ''Q'', confidence = 0.9, noiseFiltered = True,
     errorMessage = msg, educationLevel = middle\<rparr>"

definition replies_then :: "service_reply \<Rightarrow> service_reply list \<Rightarrow> nat \<Rightarrow> service_reply" where
  "replies_then fallback replies n = (if n < length replies then replies ! n else fallback)"

definition example_parse :: "string \<Rightarrow> string + AIExtractionResponse" where
  "example_parse c = (if c = ''{}'' then Inr (example_result None) else Inl ''Unexpected token'')"

text \<open>
  A store holding one confirmed question, and a store holding one question whose
  extraction failed.
\<close>

definition example_confirmed :: world where
  "example_confirmed =
     run example_env
       [Create ''img'' 10 ''image/png'' (example_result None), Confirm ''id-0''] fresh"

definition example_failed :: world where
  "example_failed =
     run example_env
       [Create ''img'' 10 ''image/png'' (example_result (Some ''No question found''))] fresh"

text \<open>
  A store holding four questions, of which the third was confirmed first, then the first,
  then the fourth, and the second not at all.
\<close>

definition example_store :: world where
  "example_store =
     run example_env
       [Create ''data:image/png;base64,AAAA'' 2048 ''image/png'' (example_result None),
        Create ''data:image/png;base64,BBBB'' 4096 ''image/png'' (example_result None),
        Create ''data:image/png;base64,CCCC'' 1024 ''image/png'' (example_result None),
        Create ''data:image/png;base64,DDDD'' 512 ''image/png'' (example_result None),
        Confirm ''id-2'', Confirm ''id-0'', Confirm ''id-3''] fresh"


section \<open>Local store: what every operation preserves\<close>

lemma list_all_update:
  "list_all P (map snd al) \<Longrightarrow> P v \<Longrightarrow> list_all P (map snd (AList.update k v al))"
  by (induction al) auto

lemma list_all_delete:
  "list_all P (map snd al) \<Longrightarrow> list_all P (map snd (AList.delete k al))"
  by (induction al) auto

lemma map_of_list_all:
  "map_of al k = Some v \<Longrightarrow> list_all P (map snd al) \<Longrightarrow> P v"
  by (induction al) (auto split: if_splits)

text \<open>
  \<^verbatim>\<open>getSchema\<close> hands out the stored container or an empty one, and leaves the stored
  container alone unless it creates an empty one.
\<close>

lemma getSchema_result:
  assumes "getSchema e w = (res, w0)"
  shows "(localStorage w0 = localStorage w \<or> (\<exists>s. localStorage w0 = Some s \<and> questions s = []))
         \<and> (\<forall>schema. res = Inr schema \<longrightarrow> localStorage w = Some schema \<or> questions schema = [])"
  using assms
  by (auto simp: getSchema_def initializeStorage_def new_Date_def Let_def
           split: if_splits option.splits)

lemma getSchema_records:
  assumes "getSchema e w = (res, w0)" "list_all P (stored_records w)"
  shows "list_all P (stored_records w0)"
    and "res = Inr schema \<Longrightarrow> list_all P (map snd (questions schema))"
  using getSchema_result[OF assms(1)] assms(2)
  by (auto simp: stored_records_def split: option.splits)

lemma getSchema_lookup:
  assumes "getSchema e w = (Inr schema, w0)" "map_of (questions schema) qid = Some q"
  shows "stored_question w qid = Some q"
  using getSchema_result[OF assms(1)] assms(2)
  by (auto simp: stored_question_def)

lemma saveSchema_records:
  assumes "list_all P (stored_records w)" "list_all P (map snd (questions schema))"
  shows "list_all P (stored_records (snd (saveSchema e schema w)))"
  using assms
  by (auto simp: saveSchema_def stored_records_def split: if_splits option.splits)

lemma new_Date_records [simp]:
  "new_Date e w = (t, w') \<Longrightarrow> stored_records w' = stored_records w"
  by (auto simp: new_Date_def stored_records_def)

lemma randomUUID_records [simp]:
  "crypto_randomUUID e w = (u, w') \<Longrightarrow> stored_records w' = stored_records w"
  by (auto simp: crypto_randomUUID_def stored_records_def)

lemma fresh_records [simp]: "stored_records fresh = []"
  by (simp add: fresh_def stored_records_def)

lemma snd_case_result:
  "snd (case p of (Inl err, w3) \<Rightarrow> (Inl err, w3) | (Inr x, w3) \<Rightarrow> (Inr (f x), w3)) = snd p"
  by (cases p) (auto split: sum.splits)

lemma createQuestion_world:
  assumes "getSchema e w = (Inr schema, w0)" "crypto_randomUUID e w0 = (u, w1)"
    "new_Date e w1 = (t, w2)"
  shows "snd (createQuestion e img fsize fformat r w) =
         snd (saveSchema e (schema\<lparr>questions := AList.update u
                 \<lparr>id = u, imageBase64 = img, fileSize = fsize, fileFormat = fformat,
                  extractedText = questionText r,
                  confidence = AIExtractionResponse.confidence r,
                  noiseFiltered = AIExtractionResponse.noiseFiltered r,
                  processingStatus =
                    (if truthy (AIExtractionResponse.errorMessage r) then failed else pending),
                  errorMessage = AIExtractionResponse.errorMessage r,
                  uploadTimestamp = t, confirmedAt = None,
                  gradeLevel = Some (educationLevel r), subject = None\<rparr> (questions schema),
                 metadata := (metadata schema)\<lparr>totalQuestions := totalQuestions (metadata schema) + 1,
                   lastModified := t\<rparr>\<rparr>) w2)"
  using assms
  by (simp add: createQuestion_def Let_def snd_case_result)

text \<open>
  A property of single records that holds of every stored record still does after an
  operation, provided the record the operation writes has it.
\<close>

lemma createQuestion_preserves:
  assumes inv: "list_all P (stored_records w)"
    and new: "\<And>q. processingStatus q =
                   (if truthy (AIExtractionResponse.errorMessage r) then failed else pending)
                \<Longrightarrow> errorMessage q = AIExtractionResponse.errorMessage r
                \<Longrightarrow> confirmedAt q = None \<Longrightarrow> P q"
  shows "list_all P (stored_records (snd (createQuestion e img fsize fformat r w)))"
proof (cases "getSchema e w")
  case (Pair res w0)
  show ?thesis
  proof (cases res)
    case (Inl err)
    with Pair getSchema_records(1)[OF Pair inv] show ?thesis
      by (simp add: createQuestion_def)
  next
    case (Inr schema)
    obtain u w1 where u: "crypto_randomUUID e w0 = (u, w1)"
      by (cases "crypto_randomUUID e w0")
    obtain t w2 where t: "new_Date e w1 = (t, w2)"
      by (cases "new_Date e w1")
    have w2: "list_all P (stored_records w2)"
      using getSchema_records(1)[OF Pair inv] u t by simp
    have old: "list_all P (map snd (questions schema))"
      using getSchema_records(2)[OF Pair inv] Inr by simp
    show ?thesis
      unfolding createQuestion_world[OF Pair[unfolded Inr] u t]
      by (rule saveSchema_records[OF w2]) (simp add: list_all_update old new)
  qed
qed

lemma stored_records_new_Date [simp]: "stored_records (snd (new_Date e w)) = stored_records w"
  by (simp add: new_Date_def stored_records_def)

lemma stored_records_prototype_set [simp]:
  "stored_records (prototype_set k v w) = stored_records w"
  by (simp add: prototype_set_def stored_records_def)

lemma questions_get_Own:
  "questions_get w schema k = Own q \<longleftrightarrow> map_of (questions schema) k = Some q"
  by (auto simp: questions_get_def split: option.splits)

lemma confirmQuestion_preserves:
  assumes inv: "list_all P (stored_records w)"
    and new: "\<And>q t. P q \<Longrightarrow> P (q\<lparr>confirmedAt := Some t, processingStatus := success\<rparr>)"
  shows "list_all P (stored_records (snd (confirmQuestion e qid w)))"
proof (cases "getSchema e w")
  case (Pair res w0)
  note w0 = getSchema_records(1)[OF Pair inv]
  show ?thesis
  proof (cases res)
    case (Inl err)
    with Pair w0 show ?thesis by (simp add: confirmQuestion_def)
  next
    case (Inr schema)
    have old: "list_all P (map snd (questions schema))"
      using getSchema_records(2)[OF Pair inv] Inr by simp
    show ?thesis
    proof (cases "questions_get w0 schema qid")
      case (Own q)
      then have "P q" using map_of_list_all[OF _ old] by (simp add: questions_get_Own)
      then show ?thesis
        using Pair Inr Own w0
        by (simp add: confirmQuestion_def Let_def case_prod_beta saveSchema_records
              list_all_update old new)
    next
      case Prototype
      then show ?thesis
        using Pair Inr w0
        by (simp add: confirmQuestion_def Let_def case_prod_beta saveSchema_records old)
    next
      case Method
      then show ?thesis
        using Pair Inr w0
        by (simp add: confirmQuestion_def Let_def case_prod_beta saveSchema_records old)
    next
      case (Primitive v)
      then show ?thesis
        using Pair Inr w0 by (simp add: confirmQuestion_def Let_def case_prod_beta)
    next
      case Undefined
      then show ?thesis
        using Pair Inr w0 by (simp add: confirmQuestion_def)
    qed
  qed
qed

lemma updateExtraction_preserves:
  assumes inv: "list_all P (stored_records w)"
    and new: "\<And>q. stored_question w qid = Some q \<Longrightarrow> P q \<Longrightarrow>
       P (q\<lparr>extractedText := questionText r,
             confidence := AIExtractionResponse.confidence r,
             noiseFiltered := AIExtractionResponse.noiseFiltered r,
             errorMessage := AIExtractionResponse.errorMessage r,
             processingStatus :=
               (if truthy (AIExtractionResponse.errorMessage r) then failed else pending)\<rparr>)"
  shows "list_all P (stored_records (snd (updateExtraction e qid r w)))"
proof (cases "getSchema e w")
  case (Pair res w0)
  note w0 = getSchema_records(1)[OF Pair inv]
  show ?thesis
  proof (cases res)
    case (Inl err)
    with Pair w0 show ?thesis by (simp add: updateExtraction_def)
  next
    case (Inr schema)
    have old: "list_all P (map snd (questions schema))"
      using getSchema_records(2)[OF Pair inv] Inr by simp
    show ?thesis
    proof (cases "questions_get w0 schema qid")
      case (Own q)
      then have m: "map_of (questions schema) qid = Some q" by (simp add: questions_get_Own)
      have "P q" using map_of_list_all[OF m old] .
      moreover have "stored_question w qid = Some q"
        using getSchema_lookup Pair Inr m by blast
      ultimately have "P (q\<lparr>extractedText := questionText r,
             confidence := AIExtractionResponse.confidence r,
             noiseFiltered := AIExtractionResponse.noiseFiltered r,
             errorMessage := AIExtractionResponse.errorMessage r,
             processingStatus :=
               (if truthy (AIExtractionResponse.errorMessage r) then failed else pending)\<rparr>)"
        using new by blast
      then show ?thesis
        using Pair Inr Own w0
        by (simp add: updateExtraction_def Let_def case_prod_beta saveSchema_records
              list_all_update old)
    next
      case Prototype
      then show ?thesis
        using Pair Inr w0
        by (simp add: updateExtraction_def Let_def case_prod_beta saveSchema_records old)
    next
      case Method
      then show ?thesis
        using Pair Inr w0
        by (simp add: updateExtraction_def Let_def case_prod_beta saveSchema_records old)
    next
      case (Primitive v)
      then show ?thesis
        using Pair Inr w0 by (simp add: updateExtraction_def)
    next
      case Undefined
      then show ?thesis
        using Pair Inr w0 by (simp add: updateExtraction_def)
    qed
  qed
qed

lemma deleteQuestion_preserves:
  assumes inv: "list_all P (stored_records w)"
  shows "list_all P (stored_records (snd (deleteQuestion e qid w)))"
proof (cases "getSchema e w")
  case (Pair res w0)
  note w0 = getSchema_records(1)[OF Pair inv]
  show ?thesis
  proof (cases res)
    case (Inl err)
    with Pair w0 show ?thesis by (simp add: deleteQuestion_def)
  next
    case (Inr schema)
    have old: "list_all P (map snd (questions schema))"
      using getSchema_records(2)[OF Pair inv] Inr by simp
    show ?thesis
      using Pair Inr w0
      by (simp add: deleteQuestion_def Let_def case_prod_beta saveSchema_records
            list_all_delete old)
  qed
qed

lemma clearAllQuestions_preserves:
  assumes inv: "list_all P (stored_records w)"
  shows "list_all P (stored_records (snd (clearAllQuestions e w)))"
proof (cases "getSchema e w")
  case (Pair res w0)
  note w0 = getSchema_records(1)[OF Pair inv]
  obtain t1 w1 where t1: "new_Date e w0 = (t1, w1)" by (cases "new_Date e w0")
  have w1: "list_all P (stored_records w1)" using w0 t1 by simp
  show ?thesis
    using Pair t1 w0
    by (auto simp: clearAllQuestions_def Let_def split: sum.splits
             intro!: saveSchema_records[OF w1])
qed

section \<open>Local store: creation\<close>

lemma status_of_truthy:
  "(if truthy m then failed else pending) =
   (case m of None \<Rightarrow> pending | Some s \<Rightarrow> if s = [] then pending else failed)"
  by (cases m) auto

text \<open>
  Claim C1, as the code has it. In a browser whose storage accepts the writes,
  \<^verbatim>\<open>createQuestion\<close> returns the id it has just drawn, and \<^verbatim>\<open>getQuestionById\<close> then
  finds under that id a record with \<open>confirmedAt = null\<close>, the error message of the
  extraction result, and the status \<open>failed\<close> if that message is neither \<^verbatim>\<open>null\<close> nor
  the empty string, \<open>pending\<close> if it is \<^verbatim>\<open>null\<close> or empty.
\<close>

theorem createQuestion_status_by_truthiness:
  assumes "window_defined e" "\<And>schema. setData e schema = None" "setVersion e = None"
  shows "fst (createQuestion e img fsize fformat r w) = Inr (randomUUID e (uuid_draws w)) \<and>
         (\<exists>q. fst (getQuestionById e (randomUUID e (uuid_draws w))
                      (snd (createQuestion e img fsize fformat r w))) = Inr (Some q)
              \<and> processingStatus q =
                  (case AIExtractionResponse.errorMessage r of
                     None \<Rightarrow> pending
                   | Some m \<Rightarrow> if m = [] then pending else failed)
              \<and> errorMessage q = AIExtractionResponse.errorMessage r
              \<and> confirmedAt q = None
              \<and> id q = randomUUID e (uuid_draws w))"
  using assms
  by (cases "localStorage w")
     (simp_all add: createQuestion_def getQuestionById_def getSchema_def initializeStorage_def
        saveSchema_def new_Date_def crypto_randomUUID_def Let_def update_conv' status_of_truthy)

theorem createQuestion_status_by_truthiness_witness:
  "window_defined example_env \<and> (\<forall>schema. setData example_env schema = None)
   \<and> setVersion example_env = None
   \<and> fst (createQuestion example_env ''img'' 10 ''image/png''
             (example_result (Some ''No question found'')) fresh) = Inr ''id-0''
   \<and> (\<exists>q. fst (getQuestionById example_env ''id-0''
                 (snd (createQuestion example_env ''img'' 10 ''image/png''
                         (example_result (Some ''No question found'')) fresh)))
              = Inr (Some q)
          \<and> processingStatus q = failed \<and> errorMessage q = Some ''No question found''
          \<and> confirmedAt q = None)"
proof -
  have h: "window_defined example_env" "\<And>schema. setData example_env schema = None"
      "setVersion example_env = None"
    by (simp_all add: example_env_def)
  have u: "randomUUID example_env (uuid_draws fresh) = ''id-0''"
    by code_simp
  from createQuestion_status_by_truthiness[OF h, of "''img''" 10 "''image/png''"
         "example_result (Some ''No question found'')" fresh] h
  show ?thesis
    unfolding u by (auto simp: example_result_def)
qed

text \<open>
  Claim C1 as stated fails for the empty string: an extraction result whose error message
  is \<^verbatim>\<open>""\<close>, which is not \<^verbatim>\<open>null\<close>, is stored with status \<open>pending\<close>.
\<close>

theorem createQuestion_empty_error_message_pending:
  "fst (createQuestion example_env ''img'' 10 ''image/png'' (example_result (Some '''')) fresh)
     = Inr ''id-0''
   \<and> map_option processingStatus
        (stored_question
           (snd (createQuestion example_env ''img'' 10 ''image/png'' (example_result (Some '''')) fresh))
           ''id-0'')
       = Some pending
   \<and> map_option errorMessage
        (stored_question
           (snd (createQuestion example_env ''img'' 10 ''image/png'' (example_result (Some '''')) fresh))
           ''id-0'')
       = Some (Some '''')"
  by code_simp


section \<open>Local store: the record invariants over sequences of operations\<close>

lemma stored_question_breaks:
  assumes "stored_question w qid = Some q" "\<not> P q"
  shows "\<not> list_all P (stored_records w)"
proof
  assume all: "list_all P (stored_records w)"
  from assms(1) obtain schema where s: "localStorage w = Some schema"
    and m: "map_of (questions schema) qid = Some q"
    by (auto simp: stored_question_def split: option.splits)
  from all s have "list_all P (map snd (questions schema))"
    by (simp add: stored_records_def)
  from map_of_list_all[OF m this] assms(2) show False by simp
qed

text \<open>
  What \<^verbatim>\<open>updateExtraction\<close> and \<^verbatim>\<open>confirmQuestion\<close> do to a stored record when the
  storage accepts the write.
\<close>

lemma updateExtraction_stored:
  assumes "window_defined e" "\<And>schema. setData e schema = None" "setVersion e = None"
    and "stored_question w qid = Some q"
  shows "fst (updateExtraction e qid r w) = Inr ()"
    and "stored_question (snd (updateExtraction e qid r w)) qid =
         Some (q\<lparr>extractedText := questionText r,
                 confidence := AIExtractionResponse.confidence r,
                 noiseFiltered := AIExtractionResponse.noiseFiltered r,
                 errorMessage := AIExtractionResponse.errorMessage r,
                 processingStatus :=
                   (if truthy (AIExtractionResponse.errorMessage r) then failed else pending)\<rparr>)"
  using assms
  by (auto simp: updateExtraction_def getSchema_def questions_get_def saveSchema_def new_Date_def
        stored_question_def Let_def update_conv' split: option.splits)

lemma confirmQuestion_stored:
  assumes "window_defined e" "\<And>schema. setData e schema = None" "setVersion e = None"
    and "stored_question w qid = Some q"
  shows "fst (confirmQuestion e qid w) = Inr ()"
    and "stored_question (snd (confirmQuestion e qid w)) qid =
         Some (q\<lparr>confirmedAt := Some (clock e (clock_reads w)), processingStatus := success\<rparr>)"
  using assms
  by (auto simp: confirmQuestion_def getSchema_def questions_get_def saveSchema_def new_Date_def
        stored_question_def Let_def update_conv' split: option.splits)

lemma apply_op_confirmed_implies_success:
  assumes inv: "list_all confirmed_implies_success (stored_records w)"
    and ok: "case op of
               UpdateExtraction qid r \<Rightarrow>
                 (case stored_question w qid of None \<Rightarrow> True | Some q \<Rightarrow> confirmedAt q = None)
             | _ \<Rightarrow> True"
  shows "list_all confirmed_implies_success (stored_records (apply_op e op w))"
proof (cases op)
  case (Create img fsize fformat r)
  then show ?thesis
    using createQuestion_preserves[OF inv, of r e img fsize fformat]
    by (simp add: confirmed_implies_success_def)
next
  case (Confirm qid)
  then show ?thesis
    using confirmQuestion_preserves[OF inv, of e qid]
    by (simp add: confirmed_implies_success_def)
next
  case (UpdateExtraction qid r)
  with ok have "\<And>q. stored_question w qid = Some q \<Longrightarrow> confirmedAt q = None"
    by (simp split: option.splits)
  then show ?thesis
    using UpdateExtraction updateExtraction_preserves[OF inv, of qid r e]
    by (simp add: confirmed_implies_success_def)
next
  case (Delete qid)
  then show ?thesis using deleteQuestion_preserves[OF inv] by simp
next
  case ClearAll
  then show ?thesis using clearAllQuestions_preserves[OF inv] by simp
qed

lemma run_confirmed_implies_success:
  "list_all confirmed_implies_success (stored_records w) \<Longrightarrow> updates_unconfirmed_only e ops w
     \<Longrightarrow> list_all confirmed_implies_success (stored_records (run e ops w))"
proof (induction ops arbitrary: w)
  case Nil
  then show ?case by simp
next
  case (Cons op ops)
  from Cons.prems have "list_all confirmed_implies_success (stored_records (apply_op e op w))"
    by (intro apply_op_confirmed_implies_success) simp_all
  with Cons show ?case by simp
qed

text \<open>
  Claim C3, as the code has it. Starting with nothing stored, after any sequence of
  \<^verbatim>\<open>create\<close>, \<^verbatim>\<open>confirm\<close>, \<^verbatim>\<open>updateExtraction\<close>, \<^verbatim>\<open>delete\<close> and \<^verbatim>\<open>clearAll\<close>
  (each returning or throwing) in which \<^verbatim>\<open>updateExtraction\<close> is never applied to a
  confirmed record, every stored record with a non-null \<open>confirmedAt\<close> has status
  \<open>success\<close>. Applied to a stored record with a non-null \<open>confirmedAt\<close>, in a browser whose
  storage accepts the writes, \<^verbatim>\<open>updateExtraction\<close> returns and leaves under the id the
  record with the four extraction fields overwritten, the status recomputed to \<open>failed\<close>
  or \<open>pending\<close>, and every other field, \<open>confirmedAt\<close> among them, as it was: the
  invariant then no longer holds.
\<close>

theorem confirmed_implies_success_unless_updated_after_confirm:
  "(updates_unconfirmed_only e ops fresh \<longrightarrow>
      list_all confirmed_implies_success (stored_records (run e ops fresh)))
   \<and> (window_defined e \<and> (\<forall>schema. setData e schema = None) \<and> setVersion e = None
        \<and> stored_question w qid = Some q \<and> confirmedAt q \<noteq> None \<longrightarrow>
      fst (updateExtraction e qid r w) = Inr ()
      \<and> stored_question (snd (updateExtraction e qid r w)) qid =
          Some (q\<lparr>extractedText := questionText r,
                  confidence := AIExtractionResponse.confidence r,
                  noiseFiltered := AIExtractionResponse.noiseFiltered r,
                  errorMessage := AIExtractionResponse.errorMessage r,
                  processingStatus :=
                    (case AIExtractionResponse.errorMessage r of
                       None \<Rightarrow> pending
                     | Some m \<Rightarrow> if m = [] then pending else failed)\<rparr>)
      \<and> \<not> list_all confirmed_implies_success (stored_records (snd (updateExtraction e qid r w))))"
proof (intro conjI impI)
  assume "updates_unconfirmed_only e ops fresh"
  then show "list_all confirmed_implies_success (stored_records (run e ops fresh))"
    by (intro run_confirmed_implies_success) simp_all
next
  assume a: "window_defined e \<and> (\<forall>schema. setData e schema = None) \<and> setVersion e = None
        \<and> stored_question w qid = Some q \<and> confirmedAt q \<noteq> None"
  then have h: "window_defined e" "\<And>schema. setData e schema = None" "setVersion e = None"
      "stored_question w qid = Some q"
    by simp_all
  show "fst (updateExtraction e qid r w) = Inr ()"
    by (rule updateExtraction_stored(1)[OF h])
  have st: "stored_question (snd (updateExtraction e qid r w)) qid =
          Some (q\<lparr>extractedText := questionText r,
                  confidence := AIExtractionResponse.confidence r,
                  noiseFiltered := AIExtractionResponse.noiseFiltered r,
                  errorMessage := AIExtractionResponse.errorMessage r,
                  processingStatus :=
                    (case AIExtractionResponse.errorMessage r of
                       None \<Rightarrow> pending
                     | Some m \<Rightarrow> if m = [] then pending else failed)\<rparr>)"
    using updateExtraction_stored(2)[OF h, of r] by (simp add: status_of_truthy)
  then show "stored_question (snd (updateExtraction e qid r w)) qid =
          Some (q\<lparr>extractedText := questionText r,
                  confidence := AIExtractionResponse.confidence r,
                  noiseFiltered := AIExtractionResponse.noiseFiltered r,
                  errorMessage := AIExtractionResponse.errorMessage r,
                  processingStatus :=
                    (case AIExtractionResponse.errorMessage r of
                       None \<Rightarrow> pending
                     | Some m \<Rightarrow> if m = [] then pending else failed)\<rparr>)" .
  show "\<not> list_all confirmed_implies_success (stored_records (snd (updateExtraction e qid r w)))"
    using a by (intro stored_question_breaks[OF st])
      (auto simp: confirmed_implies_success_def split: option.splits)
qed

theorem confirmed_implies_success_unless_updated_after_confirm_witness:
  "updates_unconfirmed_only example_env
     [Create ''img'' 10 ''image/png'' (example_result (Some ''No question found'')),
      UpdateExtraction ''id-0'' (example_result None), Confirm ''id-0''] fresh
   \<and> list_all confirmed_implies_success
       (stored_records (run example_env
          [Create ''img'' 10 ''image/png'' (example_result (Some ''No question found'')),
           UpdateExtraction ''id-0'' (example_result None), Confirm ''id-0''] fresh))
   \<and> map (\<lambda>q. (confirmedAt q, processingStatus q))
       (stored_records (run example_env
          [Create ''img'' 10 ''image/png'' (example_result (Some ''No question found'')),
           UpdateExtraction ''id-0'' (example_result None), Confirm ''id-0''] fresh))
     = [(Some 1004, success)]
   \<and> map_option (\<lambda>q. (confirmedAt q, processingStatus q, errorMessage q))
        (stored_question example_confirmed ''id-0'')
     = Some (Some 1003, success, None)
   \<and> fst (updateExtraction example_env ''id-0'' (example_result (Some ''No question found''))
             example_confirmed) = Inr ()
   \<and> map_option (\<lambda>q. (confirmedAt q, processingStatus q, errorMessage q))
        (stored_question
           (snd (updateExtraction example_env ''id-0'' (example_result (Some ''No question found''))
                   example_confirmed)) ''id-0'')
     = Some (Some 1003, failed, Some ''No question found'')"
proof -
  have h: "updates_unconfirmed_only example_env
     [Create ''img'' 10 ''image/png'' (example_result (Some ''No question found'')),
      UpdateExtraction ''id-0'' (example_result None), Confirm ''id-0''] fresh"
    by code_simp
  have v: "map (\<lambda>q. (confirmedAt q, processingStatus q))
       (stored_records (run example_env
          [Create ''img'' 10 ''image/png'' (example_result (Some ''No question found'')),
           UpdateExtraction ''id-0'' (example_result None), Confirm ''id-0''] fresh))
     = [(Some 1004, success)]"
    by code_simp
  note T = confirmed_implies_success_unless_updated_after_confirm
  have first: "list_all confirmed_implies_success
       (stored_records (run example_env
          [Create ''img'' 10 ''image/png'' (example_result (Some ''No question found'')),
           UpdateExtraction ''id-0'' (example_result None), Confirm ''id-0''] fresh))"
    using T[THEN conjunct1] h by blast
  have env: "window_defined example_env" "\<forall>schema. setData example_env schema = None"
      "setVersion example_env = None"
    by (simp_all add: example_env_def)
  have sq: "stored_question example_confirmed ''id-0'' =
      Some \<lparr>id = ''id-0'', imageBase64 = ''img'', fileSize = 10, fileFormat = ''image/png'',
            extractedText = ''Q'', confidence = 9 / 10, noiseFiltered = True,
            processingStatus = success, errorMessage = None, uploadTimestamp = 1002,
            confirmedAt = Some 1003, gradeLevel = Some middle, subject = None\<rparr>"
    by code_simp
  have second: "fst (updateExtraction example_env ''id-0'' (example_result (Some ''No question found''))
             example_confirmed) = Inr ()
     \<and> map_option (\<lambda>q. (confirmedAt q, processingStatus q, errorMessage q))
        (stored_question
           (snd (updateExtraction example_env ''id-0'' (example_result (Some ''No question found''))
                   example_confirmed)) ''id-0'')
       = Some (Some 1003, failed, Some ''No question found'')"
    using T[where e = example_env and w = example_confirmed and qid = "''id-0''"
        and r = "example_result (Some ''No question found'')"
        and q = "\<lparr>id = ''id-0'', imageBase64 = ''img'', fileSize = 10, fileFormat = ''image/png'',
            extractedText = ''Q'', confidence = 9 / 10, noiseFiltered = True,
            processingStatus = success, errorMessage = None, uploadTimestamp = 1002,
            confirmedAt = Some 1003, gradeLevel = Some middle, subject = None\<rparr>", THEN conjunct2]
      env sq
    by (simp add: example_result_def)
  from h first v sq second show ?thesis by simp
qed

text \<open>
  Claim C3 as stated fails: \<^verbatim>\<open>updateExtraction\<close> on a confirmed record resets its status
  and keeps \<open>confirmedAt\<close>.
\<close>

theorem updateExtraction_after_confirm_breaks_confirmed_implies_success:
  "\<not> list_all confirmed_implies_success
       (stored_records (run example_env
          [Create ''img'' 10 ''image/png'' (example_result None), Confirm ''id-0'',
           UpdateExtraction ''id-0'' (example_result None)] fresh))"
  by code_simp

lemma apply_op_failed_iff_truthy:
  assumes inv: "list_all failed_iff_truthy_error_unless_success (stored_records w)"
  shows "list_all failed_iff_truthy_error_unless_success (stored_records (apply_op e op w))"
proof (cases op)
  case (Create img fsize fformat r)
  then show ?thesis
    using createQuestion_preserves[OF inv, of r e img fsize fformat]
    by (simp add: failed_iff_truthy_error_unless_success_def)
next
  case (Confirm qid)
  then show ?thesis
    using confirmQuestion_preserves[OF inv, of e qid]
    by (simp add: failed_iff_truthy_error_unless_success_def)
next
  case (UpdateExtraction qid r)
  then show ?thesis
    using updateExtraction_preserves[OF inv, of qid r e]
    by (simp add: failed_iff_truthy_error_unless_success_def)
next
  case (Delete qid)
  then show ?thesis using deleteQuestion_preserves[OF inv] by simp
next
  case ClearAll
  then show ?thesis using clearAllQuestions_preserves[OF inv] by simp
qed

lemma run_failed_iff_truthy:
  "list_all failed_iff_truthy_error_unless_success (stored_records w)
     \<Longrightarrow> list_all failed_iff_truthy_error_unless_success (stored_records (run e ops w))"
  by (induction ops arbitrary: w) (simp_all add: apply_op_failed_iff_truthy)

text \<open>
  Claim C4, as the code has it. Starting with nothing stored, after any sequence of
  \<^verbatim>\<open>create\<close>, \<^verbatim>\<open>confirm\<close>, \<^verbatim>\<open>updateExtraction\<close>, \<^verbatim>\<open>delete\<close> and \<^verbatim>\<open>clearAll\<close>
  (each returning or throwing), every stored record whose status is not \<open>success\<close> has status
  \<open>failed\<close> if and only if its error message is neither \<^verbatim>\<open>null\<close> nor empty. Applied to a
  stored record, in a browser whose storage accepts the writes, \<^verbatim>\<open>confirm\<close> returns and
  leaves under the id the record with \<open>confirmedAt\<close> set to the time read and the status set
  to \<open>success\<close>, and every other field, the error message among them, as it was: when that
  message is not \<^verbatim>\<open>null\<close>, the equivalence of the data model then no longer holds.
\<close>

theorem failed_iff_truthy_error_unless_success_invariant:
  "list_all failed_iff_truthy_error_unless_success (stored_records (run e ops fresh))
   \<and> (window_defined e \<and> (\<forall>schema. setData e schema = None) \<and> setVersion e = None
        \<and> stored_question w qid = Some q \<longrightarrow>
      fst (confirmQuestion e qid w) = Inr ()
      \<and> stored_question (snd (confirmQuestion e qid w)) qid =
          Some (q\<lparr>confirmedAt := Some (clock e (clock_reads w)), processingStatus := success\<rparr>)
      \<and> (errorMessage q \<noteq> None \<longrightarrow>
           \<not> list_all failed_iff_error (stored_records (snd (confirmQuestion e qid w)))))"
proof (intro conjI impI)
  show "list_all failed_iff_truthy_error_unless_success (stored_records (run e ops fresh))"
    by (rule run_failed_iff_truthy) simp
next
  assume a: "window_defined e \<and> (\<forall>schema. setData e schema = None) \<and> setVersion e = None
        \<and> stored_question w qid = Some q"
  then have h: "window_defined e" "\<And>schema. setData e schema = None" "setVersion e = None"
      "stored_question w qid = Some q"
    by simp_all
  show "fst (confirmQuestion e qid w) = Inr ()"
    by (rule confirmQuestion_stored(1)[OF h])
  show st: "stored_question (snd (confirmQuestion e qid w)) qid =
          Some (q\<lparr>confirmedAt := Some (clock e (clock_reads w)), processingStatus := success\<rparr>)"
    by (rule confirmQuestion_stored(2)[OF h])
  assume "errorMessage q \<noteq> None"
  then show "\<not> list_all failed_iff_error (stored_records (snd (confirmQuestion e qid w)))"
    by (intro stored_question_breaks[OF st]) (simp add: failed_iff_error_def)
qed

theorem failed_iff_truthy_error_unless_success_invariant_witness:
  "list_all failed_iff_truthy_error_unless_success
     (stored_records (run example_env
        [Create ''img'' 10 ''image/png'' (example_result (Some ''No question found'')),
         Create ''img'' 10 ''image/png'' (example_result None),
         Create ''img'' 10 ''image/png'' (example_result (Some ''''))] fresh))
   \<and> map (\<lambda>q. (processingStatus q, errorMessage q))
       (stored_records (run example_env
          [Create ''img'' 10 ''image/png'' (example_result (Some ''No question found'')),
           Create ''img'' 10 ''image/png'' (example_result None),
           Create ''img'' 10 ''image/png'' (example_result (Some ''''))] fresh))
     = [(failed, Some ''No question found''), (pending, None), (pending, Some '''')]
   \<and> map_option (\<lambda>q. (confirmedAt q, processingStatus q, errorMessage q))
        (stored_question example_failed ''id-0'')
     = Some (None, failed, Some ''No question found'')
   \<and> fst (confirmQuestion example_env ''id-0'' example_failed) = Inr ()
   \<and> map_option (\<lambda>q. (confirmedAt q, processingStatus q, errorMessage q))
        (stored_question (snd (confirmQuestion example_env ''id-0'' example_failed)) ''id-0'')
     = Some (Some 1003, success, Some ''No question found'')
   \<and> \<not> list_all failed_iff_error
         (stored_records (snd (confirmQuestion example_env ''id-0'' example_failed)))"
proof -
  note T = failed_iff_truthy_error_unless_success_invariant
  have first: "list_all failed_iff_truthy_error_unless_success
     (stored_records (run example_env
        [Create ''img'' 10 ''image/png'' (example_result (Some ''No question found'')),
         Create ''img'' 10 ''image/png'' (example_result None),
         Create ''img'' 10 ''image/png'' (example_result (Some ''''))] fresh))"
    by (rule T[THEN conjunct1])
  have v: "map (\<lambda>q. (processingStatus q, errorMessage q))
       (stored_records (run example_env
          [Create ''img'' 10 ''image/png'' (example_result (Some ''No question found'')),
           Create ''img'' 10 ''image/png'' (example_result None),
           Create ''img'' 10 ''image/png'' (example_result (Some ''''))] fresh))
     = [(failed, Some ''No question found''), (pending, None), (pending, Some '''')]"
    by code_simp
  have env: "window_defined example_env" "\<forall>schema. setData example_env schema = None"
      "setVersion example_env = None"
    by (simp_all add: example_env_def)
  have sq: "stored_question example_failed ''id-0'' =
      Some \<lparr>id = ''id-0'', imageBase64 = ''img'', fileSize = 10, fileFormat = ''image/png'',
            extractedText = ''Q'', confidence = 9 / 10, noiseFiltered = True,
            processingStatus = failed, errorMessage = Some ''No question found'',
            uploadTimestamp = 1002, confirmedAt = None, gradeLevel = Some middle,
            subject = None\<rparr>"
    by code_simp
  have c: "clock example_env (clock_reads example_failed) = 1003"
    by code_simp
  have second: "fst (confirmQuestion example_env ''id-0'' example_failed) = Inr ()
     \<and> map_option (\<lambda>q. (confirmedAt q, processingStatus q, errorMessage q))
          (stored_question (snd (confirmQuestion example_env ''id-0'' example_failed)) ''id-0'')
       = Some (Some 1003, success, Some ''No question found'')
     \<and> \<not> list_all failed_iff_error
           (stored_records (snd (confirmQuestion example_env ''id-0'' example_failed)))"
    using T[where e = example_env and w = example_failed and qid = "''id-0''"
        and q = "\<lparr>id = ''id-0'', imageBase64 = ''img'', fileSize = 10, fileFormat = ''image/png'',
            extractedText = ''Q'', confidence = 9 / 10, noiseFiltered = True,
            processingStatus = failed, errorMessage = Some ''No question found'',
            uploadTimestamp = 1002, confirmedAt = None, gradeLevel = Some middle,
            subject = None\<rparr>", THEN conjunct2]
      env sq c
    by simp
  from first v sq second show ?thesis by simp
qed

text \<open>
  Claim C4 as stated fails: \<^verbatim>\<open>confirm\<close> on a record with an error message sets the
  status to \<open>success\<close> and keeps the message.
\<close>

theorem confirm_of_failed_record_breaks_failed_iff_error:
  "\<not> list_all failed_iff_error
       (stored_records (run example_env
          [Create ''img'' 10 ''image/png'' (example_result (Some ''No question found'')),
           Confirm ''id-0''] fresh))"
  by code_simp

section \<open>Local store: confirmed questions\<close>

text \<open>
  With the comparator of \<^verbatim>\<open>getConfirmedQuestions\<close>, the sort is the library's stable
  insertion sort on the negated time of confirmation.
\<close>

lemma insert_sorted_insort_key:
  "insert_sorted (\<lambda>a b. key b - key a) x xs = insort_key (\<lambda>q. - key q :: int) x xs"
  by (induction xs) auto

lemma Array_sort_sort_key:
  "Array_sort (\<lambda>a b. key b - key a) xs = sort_key (\<lambda>q. - key q :: int) xs"
  by (induction xs) (simp_all add: Array_sort_def insert_sorted_insort_key)

lemma descending_times:
  assumes "\<forall>q \<in> set xs. confirmedAt q \<noteq> None"
    and "qs = sort_key (\<lambda>q. - (case confirmedAt q of None \<Rightarrow> 0 | Some t \<Rightarrow> t)) xs"
  shows "\<exists>ts. map confirmedAt qs = map Some ts \<and> sorted (rev ts)"
proof (intro exI conjI)
  let ?key = "\<lambda>q. case confirmedAt q of None \<Rightarrow> 0 | Some t \<Rightarrow> (t :: int)"
  have "set qs = set xs" using assms(2) by simp
  with assms(1) have some: "\<forall>q \<in> set qs. confirmedAt q = Some (?key q)"
    by (auto split: option.splits)
  then show "map confirmedAt qs = map Some (map ?key qs)"
    by (induction qs) auto
  have "sorted (map (\<lambda>q. - ?key q) qs)"
    unfolding assms(2) by (rule sorted_sort_key)
  then have "sorted_wrt (\<lambda>a b. ?key b \<le> ?key a) qs"
    by (simp add: sorted_map)
  then show "sorted (rev (map ?key qs))"
    by (simp add: sorted_wrt_rev sorted_wrt_map)
qed

text \<open>
  Claim C10, as the code has it. In a browser with an existing container,
  \<^verbatim>\<open>getConfirmedQuestions\<close> changes nothing and returns the stored records whose
  \<open>confirmedAt\<close> is not \<^verbatim>\<open>null\<close>, each as often as it is stored, in descending order of
  \<open>confirmedAt\<close>, records confirmed at the same instant in the order of the store. With no
  container yet and a storage that accepts the writes, it creates and stores the empty
  container, stamped with two readings of the clock, and returns the empty list. In
  either case the stored records are the same before and after.
\<close>

theorem getConfirmedQuestions_confirmed_descending:
  "(window_defined e \<and> localStorage w = Some schema \<longrightarrow>
      getConfirmedQuestions e w =
        (Inr (sort_key (\<lambda>q. - (case confirmedAt q of None \<Rightarrow> 0 | Some t \<Rightarrow> t))
                (filter (\<lambda>q. confirmedAt q \<noteq> None) (map snd (questions schema)))), w)
      \<and> (\<exists>qs ts. fst (getConfirmedQuestions e w) = Inr qs
            \<and> mset qs = mset (filter (\<lambda>q. confirmedAt q \<noteq> None) (map snd (questions schema)))
            \<and> map confirmedAt qs = map Some ts \<and> sorted (rev ts)))
   \<and> (window_defined e \<and> localStorage w = None \<and> (\<forall>s. setData e s = None)
        \<and> setVersion e = None \<longrightarrow>
      fst (getConfirmedQuestions e w) = Inr []
      \<and> localStorage (snd (getConfirmedQuestions e w)) =
          Some \<lparr>version = ''1.0.0'', questions = [],
                metadata = \<lparr>createdAt = clock e (clock_reads w),
                             lastModified = clock e (Suc (clock_reads w)),
                             totalQuestions = 0\<rparr>\<rparr>)
   \<and> (window_defined e \<longrightarrow>
      stored_records (snd (getConfirmedQuestions e w)) = stored_records w)"
proof (intro conjI impI)
  assume a: "window_defined e \<and> localStorage w = Some schema"
  let ?xs = "filter (\<lambda>q. confirmedAt q \<noteq> None) (map snd (questions schema))"
  let ?qs = "sort_key (\<lambda>q. - (case confirmedAt q of None \<Rightarrow> 0 | Some t \<Rightarrow> t)) ?xs"
  show eq: "getConfirmedQuestions e w = (Inr ?qs, w)"
    using a Array_sort_sort_key[of "\<lambda>q. Date_getTime (confirmedAt q)" ?xs]
    by (simp add: getConfirmedQuestions_def getSchema_def Date_getTime_def)
  have "\<forall>q \<in> set ?xs. confirmedAt q \<noteq> None" by simp
  from descending_times[OF this refl]
  obtain ts where "map confirmedAt ?qs = map Some ts" "sorted (rev ts)" by blast
  then show "\<exists>qs ts. fst (getConfirmedQuestions e w) = Inr qs
            \<and> mset qs = mset (filter (\<lambda>q. confirmedAt q \<noteq> None) (map snd (questions schema)))
            \<and> map confirmedAt qs = map Some ts \<and> sorted (rev ts)"
    unfolding eq by (intro exI[of _ ?qs] exI[of _ ts]) simp
next
  assume a: "window_defined e \<and> localStorage w = None \<and> (\<forall>s. setData e s = None)
        \<and> setVersion e = None"
  then show "fst (getConfirmedQuestions e w) = Inr []"
    by (simp add: getConfirmedQuestions_def getSchema_def initializeStorage_def new_Date_def
          Let_def Array_sort_def)
  show "localStorage (snd (getConfirmedQuestions e w)) =
          Some \<lparr>version = ''1.0.0'', questions = [],
                metadata = \<lparr>createdAt = clock e (clock_reads w),
                             lastModified = clock e (Suc (clock_reads w)),
                             totalQuestions = 0\<rparr>\<rparr>"
    using a
    by (simp add: getConfirmedQuestions_def getSchema_def initializeStorage_def new_Date_def
          Let_def)
next
  assume "window_defined e"
  then show "stored_records (snd (getConfirmedQuestions e w)) = stored_records w"
    by (auto simp: getConfirmedQuestions_def getSchema_def initializeStorage_def new_Date_def
          stored_records_def Let_def split: option.splits)
qed

theorem getConfirmedQuestions_confirmed_descending_witness:
  "window_defined example_env
   \<and> map (\<lambda>q. (id q, confirmedAt q)) (stored_records example_store)
       = [(''id-0'', Some 1008), (''id-1'', None), (''id-2'', Some 1006), (''id-3'', Some 1010)]
   \<and> snd (getConfirmedQuestions example_env example_store) = example_store
   \<and> map (\<lambda>q. (id q, confirmedAt q)) (projr (fst (getConfirmedQuestions example_env example_store)))
       = [(''id-3'', Some 1010), (''id-0'', Some 1008), (''id-2'', Some 1006)]
   \<and> localStorage fresh = None
   \<and> fst (getConfirmedQuestions example_env fresh) = Inr []
   \<and> localStorage (snd (getConfirmedQuestions example_env fresh)) =
        Some \<lparr>version = ''1.0.0'', questions = [],
              metadata = \<lparr>createdAt = 1000, lastModified = 1001, totalQuestions = 0\<rparr>\<rparr>"
proof -
  note T = getConfirmedQuestions_confirmed_descending
  have h: "window_defined example_env" "\<forall>s. setData example_env s = None"
      "setVersion example_env = None"
    by (simp_all add: example_env_def)
  have v: "map (\<lambda>q. (id q, confirmedAt q)) (stored_records example_store)
       = [(''id-0'', Some 1008), (''id-1'', None), (''id-2'', Some 1006), (''id-3'', Some 1010)]"
    by code_simp
  have s: "localStorage example_store = Some (the (localStorage example_store))"
    by code_simp
  have r: "stored_records example_store = map snd (questions (the (localStorage example_store)))"
    using s by (cases "localStorage example_store") (simp_all add: stored_records_def)
  from T[where e = example_env and w = example_store
           and schema = "the (localStorage example_store)", THEN conjunct1] h s
  have eq: "getConfirmedQuestions example_env example_store =
        (Inr (sort_key (\<lambda>q. - (case confirmedAt q of None \<Rightarrow> 0 | Some t \<Rightarrow> t))
                (filter (\<lambda>q. confirmedAt q \<noteq> None) (stored_records example_store))),
         example_store)"
    unfolding r by blast
  have sorted_ids: "map (\<lambda>q. (id q, confirmedAt q))
        (sort_key (\<lambda>q. - (case confirmedAt q of None \<Rightarrow> 0 | Some t \<Rightarrow> t))
           (filter (\<lambda>q. confirmedAt q \<noteq> None) (stored_records example_store)))
       = [(''id-3'', Some 1010), (''id-0'', Some 1008), (''id-2'', Some 1006)]"
    by code_simp
  have f: "localStorage fresh = None" by (simp add: fresh_def)
  have c: "clock example_env (clock_reads fresh) = 1000"
      "clock example_env (Suc (clock_reads fresh)) = 1001"
    by (simp_all add: example_env_def fresh_def)
  from T[where e = example_env and w = fresh, THEN conjunct2, THEN conjunct1] h f
  have init: "fst (getConfirmedQuestions example_env fresh) = Inr []
      \<and> localStorage (snd (getConfirmedQuestions example_env fresh)) =
        Some \<lparr>version = ''1.0.0'', questions = [],
              metadata = \<lparr>createdAt = 1000, lastModified = 1001, totalQuestions = 0\<rparr>\<rparr>"
    unfolding c by blast
  from h(1) v eq sorted_ids f init show ?thesis by simp
qed

text \<open>
  Claim C10 as stated fails where it says that the store is not modified: with no
  container yet, reading the confirmed questions writes one.
\<close>

theorem getConfirmedQuestions_creates_container:
  "localStorage fresh = None
   \<and> localStorage (snd (getConfirmedQuestions example_env fresh)) =
        Some \<lparr>version = ''1.0.0'', questions = [],
              metadata = \<lparr>createdAt = 1000, lastModified = 1001, totalQuestions = 0\<rparr>\<rparr>"
  by code_simp

section \<open>Extraction client: one step of the retry loop\<close>

lemma retryable_status:
  "rate_limit_or_server_error err \<Longrightarrow>
     status err \<noteq> Some 401 \<and>
     (status err = Some 429 \<or> (case status err of None \<Rightarrow> False | Some s \<Rightarrow> s \<noteq> 0 \<and> 500 \<le> s))"
  by (auto simp: rate_limit_or_server_error_def split: option.splits)

lemma retry_loop_retry:
  assumes "int attempt < maxRetries" "service calls = Throws err" "rate_limit_or_server_error err"
  shows "retry_loop parse service maxRetries attempt lastError calls slept =
         retry_loop parse service maxRetries (Suc attempt) (Some err) (Suc calls)
           (slept @ [min (1000 * 2 ^ attempt) 10000])"
  using assms(1,2) retryable_status[OF assms(3)]
  by (subst retry_loop.simps) auto

lemma retry_loop_exhausted:
  assumes "\<not> int attempt < maxRetries"
  shows "retry_loop parse service maxRetries attempt lastError calls slept =
         \<lparr>outcome = Inl (Error (''Failed after '' @ show_int maxRetries @ '' attempts: ''
                @ (case lastError of None \<Rightarrow> ''undefined'' | Some err \<Rightarrow> message err))),
          network_calls = calls, sleeps = slept\<rparr>"
  using assms by (subst retry_loop.simps) simp

lemma retry_loop_success:
  assumes "int attempt < maxRetries" "service calls = Responds (Some c)" "c \<noteq> []"
    "parse c = Inr r"
  shows "retry_loop parse service maxRetries attempt lastError calls slept =
         \<lparr>outcome = Inr r, network_calls = Suc calls, sleeps = slept\<rparr>"
  using assms by (subst retry_loop.simps) simp

lemma retry_loop_unauthorized:
  assumes "int attempt < maxRetries" "service calls = Throws err" "status err = Some 401"
  shows "retry_loop parse service maxRetries attempt lastError calls slept =
         \<lparr>outcome = Inl (Error ''API key is invalid. Please check your configuration.''),
          network_calls = Suc calls, sleeps = slept\<rparr>"
  using assms by (subst retry_loop.simps) simp

lemma show_int_3: "show_int 3 = ''3''"
  by code_simp

section \<open>Extraction client: payloads\<close>

text \<open>
  Claim C2, as the code has it. A response whose payload is missing or empty is not
  retried: at whichever attempt it arrives, the call fails there with the error
  \<^verbatim>\<open>Empty response from AI\<close>, with no further network call and no delay; as the first
  reply, it ends the call after one network call. A non-empty payload that does not parse
  is not retried either: the call fails there with the parser's error.
\<close>

theorem empty_or_malformed_payload_not_retried:
  "(int attempt < maxRetries \<and> service calls = Responds content
      \<and> (content = None \<or> content = Some []) \<longrightarrow>
      retry_loop parse service maxRetries attempt lastError calls slept =
      \<lparr>outcome = Inl (Error ''Empty response from AI''), network_calls = Suc calls, sleeps = slept\<rparr>)
   \<and> (int attempt < maxRetries \<and> service calls = Responds (Some c) \<and> c \<noteq> [] \<and> parse c = Inl m \<longrightarrow>
      retry_loop parse service maxRetries attempt lastError calls slept =
      \<lparr>outcome = Inl (SyntaxError m), network_calls = Suc calls, sleeps = slept\<rparr>)
   \<and> (isApiKeyConfigured pk sk \<and> 0 < maxRetries \<and> service 0 = Responds content
        \<and> (content = None \<or> content = Some []) \<longrightarrow>
      extractQuestionFromImage pk sk parse service img lvl maxRetries =
      \<lparr>outcome = Inl (Error ''Empty response from AI''), network_calls = 1, sleeps = []\<rparr>)"
proof (intro conjI impI)
  assume "int attempt < maxRetries \<and> service calls = Responds content
      \<and> (content = None \<or> content = Some [])"
  then show "retry_loop parse service maxRetries attempt lastError calls slept =
      \<lparr>outcome = Inl (Error ''Empty response from AI''), network_calls = Suc calls, sleeps = slept\<rparr>"
    by (subst retry_loop.simps) auto
next
  assume "int attempt < maxRetries \<and> service calls = Responds (Some c) \<and> c \<noteq> [] \<and> parse c = Inl m"
  then show "retry_loop parse service maxRetries attempt lastError calls slept =
      \<lparr>outcome = Inl (SyntaxError m), network_calls = Suc calls, sleeps = slept\<rparr>"
    by (subst retry_loop.simps) auto
next
  assume "isApiKeyConfigured pk sk \<and> 0 < maxRetries \<and> service 0 = Responds content
        \<and> (content = None \<or> content = Some [])"
  then show "extractQuestionFromImage pk sk parse service img lvl maxRetries =
      \<lparr>outcome = Inl (Error ''Empty response from AI''), network_calls = 1, sleeps = []\<rparr>"
    unfolding extractQuestionFromImage_def
    by (subst retry_loop.simps) auto
qed

theorem empty_or_malformed_payload_not_retried_witness:
  "retry_loop example_parse
     (replies_then (Responds (Some ''{}'')) [Throws (APIError (Some 503) ''Service unavailable''), Responds None])
     3 1 (Some (APIError (Some 503) ''Service unavailable'')) 1 [1000]
   = \<lparr>outcome = Inl (Error ''Empty response from AI''), network_calls = 2, sleeps = [1000]\<rparr>
   \<and> retry_loop example_parse
     (replies_then (Responds (Some ''{}'')) [Responds (Some ''not json'')])
     3 0 None 0 []
   = \<lparr>outcome = Inl (SyntaxError ''Unexpected token''), network_calls = 1, sleeps = []\<rparr>"
proof (rule conjI)
  show "retry_loop example_parse
     (replies_then (Responds (Some ''{}'')) [Throws (APIError (Some 503) ''Service unavailable''), Responds None])
     3 1 (Some (APIError (Some 503) ''Service unavailable'')) 1 [1000]
   = \<lparr>outcome = Inl (Error ''Empty response from AI''), network_calls = 2, sleeps = [1000]\<rparr>"
    using empty_or_malformed_payload_not_retried[where attempt = 1 and maxRetries = 3 and calls = 1
        and content = None and slept = "[1000]" and parse = example_parse
        and lastError = "Some (APIError (Some 503) ''Service unavailable'')"
        and service = "replies_then (Responds (Some ''{}''))
                         [Throws (APIError (Some 503) ''Service unavailable''), Responds None]"]
    by (simp add: replies_then_def)
  show "retry_loop example_parse
     (replies_then (Responds (Some ''{}'')) [Responds (Some ''not json'')])
     3 0 None 0 []
   = \<lparr>outcome = Inl (SyntaxError ''Unexpected token''), network_calls = 1, sleeps = []\<rparr>"
    using empty_or_malformed_payload_not_retried[where attempt = 0 and maxRetries = 3 and calls = 0
        and c = "''not json''" and m = "''Unexpected token''" and slept = "[]"
        and parse = example_parse and lastError = None
        and service = "replies_then (Responds (Some ''{}'')) [Responds (Some ''not json'')]"]
    by (simp add: replies_then_def example_parse_def)
qed

text \<open>
  Claim C2 as stated fails: with three attempts allowed and a service whose second reply
  would be a valid payload, an empty first payload ends the call after one network call.
\<close>

theorem empty_payload_fails_after_one_call:
  "extractQuestionFromImage (Some ''sk-test'') None example_parse
     (replies_then (Responds (Some ''{}'')) [Responds (Some '''')])
     ''data:image/png;base64,AAAA'' middle 3
   = \<lparr>outcome = Inl (Error ''Empty response from AI''), network_calls = 1, sleeps = []\<rparr>"
  by code_simp

section \<open>Extraction client: retries\<close>

text \<open>
  Claim C5. An attempt that fails with status 429 or a status of 500 or more is followed
  by a delay of \<open>min (1000 * 2 ^ attempt) 10000\<close> milliseconds and the next attempt. With
  \<open>maxRetries = 3\<close>, three such failures make the call fail with an error that carries the
  message of the last one; two failures with status 500 followed by a valid payload make
  the call succeed after delays of 1000 and 2000 milliseconds, a total between 1000 and
  3000.
\<close>

theorem retry_with_exponential_backoff:
  "(int attempt < maxRetries \<and> service calls = Throws err \<and> rate_limit_or_server_error err \<longrightarrow>
      retry_loop parse service maxRetries attempt lastError calls slept =
      retry_loop parse service maxRetries (Suc attempt) (Some err) (Suc calls)
        (slept @ [min (1000 * 2 ^ attempt) 10000]))
   \<and> (isApiKeyConfigured pk sk \<and> service 0 = Throws e0 \<and> rate_limit_or_server_error e0
        \<and> service 1 = Throws e1 \<and> rate_limit_or_server_error e1
        \<and> service 2 = Throws e2 \<and> rate_limit_or_server_error e2 \<longrightarrow>
      extractQuestionFromImage pk sk parse service img lvl 3 =
        \<lparr>outcome = Inl (Error (''Failed after 3 attempts: '' @ message e2)),
         network_calls = 3, sleeps = [1000, 2000, 4000]\<rparr>)
   \<and> (isApiKeyConfigured pk sk \<and> service 0 = Throws e0 \<and> status e0 = Some 500
        \<and> service 1 = Throws e1 \<and> status e1 = Some 500
        \<and> service 2 = Responds (Some c) \<and> c \<noteq> [] \<and> parse c = Inr r \<longrightarrow>
      extractQuestionFromImage pk sk parse service img lvl 3 =
        \<lparr>outcome = Inr r, network_calls = 3, sleeps = [1000, 2000]\<rparr>
      \<and> 1000 \<le> sum_list (sleeps (extractQuestionFromImage pk sk parse service img lvl 3))
      \<and> sum_list (sleeps (extractQuestionFromImage pk sk parse service img lvl 3)) \<le> 3000)"
proof (intro conjI impI)
  assume "int attempt < maxRetries \<and> service calls = Throws err \<and> rate_limit_or_server_error err"
  then show "retry_loop parse service maxRetries attempt lastError calls slept =
      retry_loop parse service maxRetries (Suc attempt) (Some err) (Suc calls)
        (slept @ [min (1000 * 2 ^ attempt) 10000])"
    by (simp add: retry_loop_retry)
next
  assume a: "isApiKeyConfigured pk sk \<and> service 0 = Throws e0 \<and> rate_limit_or_server_error e0
        \<and> service 1 = Throws e1 \<and> rate_limit_or_server_error e1
        \<and> service 2 = Throws e2 \<and> rate_limit_or_server_error e2"
  then have s: "service 0 = Throws e0" "service (Suc 0) = Throws e1"
      "service (Suc (Suc 0)) = Throws e2"
    and r: "rate_limit_or_server_error e0" "rate_limit_or_server_error e1"
      "rate_limit_or_server_error e2"
    by (simp_all add: numeral_2_eq_2)
  have "retry_loop parse service 3 0 None 0 [] =
        retry_loop parse service 3 (Suc 0) (Some e0) (Suc 0) [1000]"
    using s r retry_loop_retry[where service = service and calls = 0 and attempt = 0
        and maxRetries = 3 and err = e0 and parse = parse and lastError = None and slept = "[]"]
    by simp
  also have "\<dots> = retry_loop parse service 3 (Suc (Suc 0)) (Some e1) (Suc (Suc 0)) [1000, 2000]"
    using s r retry_loop_retry[where service = service and calls = "Suc 0" and attempt = "Suc 0"
        and maxRetries = 3 and err = e1 and parse = parse and lastError = "Some e0"
        and slept = "[1000]"]
    by simp
  also have "\<dots> = retry_loop parse service 3 (Suc (Suc (Suc 0))) (Some e2) (Suc (Suc (Suc 0)))
                     [1000, 2000, 4000]"
    using s r retry_loop_retry[where service = service and calls = "Suc (Suc 0)"
        and attempt = "Suc (Suc 0)" and maxRetries = 3 and err = e2 and parse = parse
        and lastError = "Some e1" and slept = "[1000, 2000]"]
    by simp
  also have "\<dots> = \<lparr>outcome = Inl (Error (''Failed after 3 attempts: '' @ message e2)),
         network_calls = 3, sleeps = [1000, 2000, 4000]\<rparr>"
    by (simp add: retry_loop_exhausted show_int_3)
  finally show "extractQuestionFromImage pk sk parse service img lvl 3 =
        \<lparr>outcome = Inl (Error (''Failed after 3 attempts: '' @ message e2)),
         network_calls = 3, sleeps = [1000, 2000, 4000]\<rparr>"
    using a by (simp add: extractQuestionFromImage_def)
next
  assume a: "isApiKeyConfigured pk sk \<and> service 0 = Throws e0 \<and> status e0 = Some 500
        \<and> service 1 = Throws e1 \<and> status e1 = Some 500
        \<and> service 2 = Responds (Some c) \<and> c \<noteq> [] \<and> parse c = Inr r"
  then have s: "service 0 = Throws e0" "service (Suc 0) = Throws e1"
      "service (Suc (Suc 0)) = Responds (Some c)" "c \<noteq> []" "parse c = Inr r"
    and r: "rate_limit_or_server_error e0" "rate_limit_or_server_error e1"
    by (simp_all add: numeral_2_eq_2 rate_limit_or_server_error_def)
  have "retry_loop parse service 3 0 None 0 [] =
        retry_loop parse service 3 (Suc 0) (Some e0) (Suc 0) [1000]"
    using s r retry_loop_retry[where service = service and calls = 0 and attempt = 0
        and maxRetries = 3 and err = e0 and parse = parse and lastError = None and slept = "[]"]
    by simp
  also have "\<dots> = retry_loop parse service 3 (Suc (Suc 0)) (Some e1) (Suc (Suc 0)) [1000, 2000]"
    using s r retry_loop_retry[where service = service and calls = "Suc 0" and attempt = "Suc 0"
        and maxRetries = 3 and err = e1 and parse = parse and lastError = "Some e0"
        and slept = "[1000]"]
    by simp
  also have "\<dots> = \<lparr>outcome = Inr r, network_calls = 3, sleeps = [1000, 2000]\<rparr>"
    using s retry_loop_success[where service = service and calls = "Suc (Suc 0)"
        and attempt = "Suc (Suc 0)" and maxRetries = 3 and c = c and parse = parse and r = r
        and lastError = "Some e1" and slept = "[1000, 2000]"]
    by simp
  finally have eq: "extractQuestionFromImage pk sk parse service img lvl 3 =
        \<lparr>outcome = Inr r, network_calls = 3, sleeps = [1000, 2000]\<rparr>"
    using a by (simp add: extractQuestionFromImage_def)
  then show "extractQuestionFromImage pk sk parse service img lvl 3 =
        \<lparr>outcome = Inr r, network_calls = 3, sleeps = [1000, 2000]\<rparr>" .
  show "1000 \<le> sum_list (sleeps (extractQuestionFromImage pk sk parse service img lvl 3))"
    unfolding eq by simp
  show "sum_list (sleeps (extractQuestionFromImage pk sk parse service img lvl 3)) \<le> 3000"
    unfolding eq by simp
qed

theorem retry_with_exponential_backoff_witness:
  "extractQuestionFromImage (Some ''sk-test'') None example_parse
     (replies_then (Throws (APIError (Some 503) ''Service unavailable''))
        [Throws (APIError (Some 429) ''Too many requests'')])
     ''data:image/png;base64,AAAA'' middle 3
   = \<lparr>outcome = Inl (Error ''Failed after 3 attempts: Service unavailable''),
      network_calls = 3, sleeps = [1000, 2000, 4000]\<rparr>
   \<and> extractQuestionFromImage (Some ''sk-test'') None example_parse
     (replies_then (Responds None)
        [Throws (APIError (Some 500) ''Internal error''),
         Throws (APIError (Some 500) ''Internal error''), Responds (Some ''{}'')])
     ''data:image/png;base64,AAAA'' middle 3
   = \<lparr>outcome = Inr (example_result None), network_calls = 3, sleeps = [1000, 2000]\<rparr>"
proof (rule conjI)
  have k: "isApiKeyConfigured (Some ''sk-test'') None"
    by (simp add: isApiKeyConfigured_def)
  show "extractQuestionFromImage (Some ''sk-test'') None example_parse
     (replies_then (Throws (APIError (Some 503) ''Service unavailable''))
        [Throws (APIError (Some 429) ''Too many requests'')])
     ''data:image/png;base64,AAAA'' middle 3
   = \<lparr>outcome = Inl (Error ''Failed after 3 attempts: Service unavailable''),
      network_calls = 3, sleeps = [1000, 2000, 4000]\<rparr>"
    using k retry_with_exponential_backoff[where pk = "Some ''sk-test''" and sk = None
        and parse = example_parse and img = "''data:image/png;base64,AAAA''" and lvl = middle
        and service = "replies_then (Throws (APIError (Some 503) ''Service unavailable''))
                         [Throws (APIError (Some 429) ''Too many requests'')]"
        and ?e0.0 = "APIError (Some 429) ''Too many requests''"
        and ?e1.0 = "APIError (Some 503) ''Service unavailable''"
        and ?e2.0 = "APIError (Some 503) ''Service unavailable''"]
    by (simp add: replies_then_def rate_limit_or_server_error_def)
  show "extractQuestionFromImage (Some ''sk-test'') None example_parse
     (replies_then (Responds None)
        [Throws (APIError (Some 500) ''Internal error''),
         Throws (APIError (Some 500) ''Internal error''), Responds (Some ''{}'')])
     ''data:image/png;base64,AAAA'' middle 3
   = \<lparr>outcome = Inr (example_result None), network_calls = 3, sleeps = [1000, 2000]\<rparr>"
    using k retry_with_exponential_backoff[where pk = "Some ''sk-test''" and sk = None
        and parse = example_parse and img = "''data:image/png;base64,AAAA''" and lvl = middle
        and service = "replies_then (Responds None)
                         [Throws (APIError (Some 500) ''Internal error''),
                          Throws (APIError (Some 500) ''Internal error''), Responds (Some ''{}'')]"
        and ?e0.0 = "APIError (Some 500) ''Internal error''"
        and ?e1.0 = "APIError (Some 500) ''Internal error''"
        and c = "''{}''" and r = "example_result None"]
    by (simp add: replies_then_def example_parse_def)
qed

text \<open>
  Claim C6. A reply with status 401 is never retried: at whichever attempt it arrives, the
  call fails there with the invalid-credentials error, with no further network call and no
  delay. With a credential configured and at least one attempt allowed, a first reply
  with status 401 therefore makes the call fail after exactly one network call.
\<close>

theorem unauthorized_fails_after_one_call:
  "(int attempt < maxRetries \<and> service calls = Throws err \<and> status err = Some 401 \<longrightarrow>
      retry_loop parse service maxRetries attempt lastError calls slept =
      \<lparr>outcome = Inl (Error ''API key is invalid. Please check your configuration.''),
       network_calls = Suc calls, sleeps = slept\<rparr>)
   \<and> (isApiKeyConfigured pk sk \<and> 0 < maxRetries \<and> service 0 = Throws err
        \<and> status err = Some 401 \<longrightarrow>
      extractQuestionFromImage pk sk parse service img lvl maxRetries =
      \<lparr>outcome = Inl (Error ''API key is invalid. Please check your configuration.''),
       network_calls = 1, sleeps = []\<rparr>)"
proof (intro conjI impI)
  assume "int attempt < maxRetries \<and> service calls = Throws err \<and> status err = Some 401"
  then show "retry_loop parse service maxRetries attempt lastError calls slept =
      \<lparr>outcome = Inl (Error ''API key is invalid. Please check your configuration.''),
       network_calls = Suc calls, sleeps = slept\<rparr>"
    by (simp add: retry_loop_unauthorized)
next
  assume "isApiKeyConfigured pk sk \<and> 0 < maxRetries \<and> service 0 = Throws err
        \<and> status err = Some 401"
  then show "extractQuestionFromImage pk sk parse service img lvl maxRetries =
      \<lparr>outcome = Inl (Error ''API key is invalid. Please check your configuration.''),
       network_calls = 1, sleeps = []\<rparr>"
    using retry_loop_unauthorized[where service = service and calls = 0 and attempt = 0
      and maxRetries = maxRetries and err = err and parse = parse and lastError = None
      and slept = "[]"]
    by (simp add: extractQuestionFromImage_def)
qed

theorem unauthorized_fails_after_one_call_witness:
  "isApiKeyConfigured None (Some ''sk-test'') \<and> (0::int) < 3
   \<and> status (APIError (Some 401) ''Unauthorized'') = Some 401
   \<and> extractQuestionFromImage None (Some ''sk-test'') example_parse
        (replies_then (Responds (Some ''{}'')) [Throws (APIError (Some 401) ''Unauthorized'')])
        ''data:image/png;base64,AAAA'' high 3
      = \<lparr>outcome = Inl (Error ''API key is invalid. Please check your configuration.''),
         network_calls = 1, sleeps = []\<rparr>
   \<and> retry_loop example_parse
        (replies_then (Responds (Some ''{}''))
           [Throws (APIError (Some 500) ''Internal error''),
            Throws (APIError (Some 401) ''Unauthorized'')])
        3 1 (Some (APIError (Some 500) ''Internal error'')) 1 [1000]
      = \<lparr>outcome = Inl (Error ''API key is invalid. Please check your configuration.''),
         network_calls = 2, sleeps = [1000]\<rparr>"
proof -
  have k: "isApiKeyConfigured None (Some ''sk-test'')"
    by (simp add: isApiKeyConfigured_def)
  have c: "status (APIError (Some 401) ''Unauthorized'') = Some 401" by simp
  have first: "extractQuestionFromImage None (Some ''sk-test'') example_parse
        (replies_then (Responds (Some ''{}'')) [Throws (APIError (Some 401) ''Unauthorized'')])
        ''data:image/png;base64,AAAA'' high 3
      = \<lparr>outcome = Inl (Error ''API key is invalid. Please check your configuration.''),
         network_calls = 1, sleeps = []\<rparr>"
    using k unauthorized_fails_after_one_call[where pk = None and sk = "Some ''sk-test''"
         and maxRetries = 3 and err = "APIError (Some 401) ''Unauthorized''"
         and parse = example_parse and img = "''data:image/png;base64,AAAA''" and lvl = high
         and service = "replies_then (Responds (Some ''{}''))
                          [Throws (APIError (Some 401) ''Unauthorized'')]"]
    by (simp add: replies_then_def)
  have later: "retry_loop example_parse
        (replies_then (Responds (Some ''{}''))
           [Throws (APIError (Some 500) ''Internal error''),
            Throws (APIError (Some 401) ''Unauthorized'')])
        3 1 (Some (APIError (Some 500) ''Internal error'')) 1 [1000]
      = \<lparr>outcome = Inl (Error ''API key is invalid. Please check your configuration.''),
         network_calls = 2, sleeps = [1000]\<rparr>"
    using unauthorized_fails_after_one_call[where attempt = 1 and calls = 1
         and maxRetries = 3 and err = "APIError (Some 401) ''Unauthorized''"
         and parse = example_parse and slept = "[1000]"
         and lastError = "Some (APIError (Some 500) ''Internal error'')"
         and service = "replies_then (Responds (Some ''{}''))
                          [Throws (APIError (Some 500) ''Internal error''),
                           Throws (APIError (Some 401) ''Unauthorized'')]"]
    by (simp add: replies_then_def)
  from k c first later show ?thesis by simp
qed

text \<open>
  Claim C7. When neither environment variable holds a non-empty credential, the call makes
  no network call and, after the simulated delay of 1500 milliseconds, returns the fixed
  mock result: the sample question text (written out below as the 96 bytes of its UTF-8
  encoding: a numbered multiple-choice question with the options A to D on four further
  lines), confidence 0.95, \<open>noiseFiltered = true\<close>, \<open>errorMessage = null\<close>, and the
  education level it was given.
\<close>

theorem mock_result_without_credential:
  assumes "\<not> isApiKeyConfigured pk sk"
  shows "extractQuestionFromImage pk sk parse service img lvl maxRetries =
         \<lparr>outcome = Inr \<lparr>questionText =
                [CHR ''1'', CHR ''.'', CHR '' '', CHR 0xE4, CHR 0xB8, CHR 0x8B, CHR 0xE5, CHR 0x88,
                 CHR 0x97, CHR 0xE7, CHR 0x89, CHR 0xA9, CHR 0xE8, CHR 0xB4, CHR 0xA8, CHR 0xE4,
                 CHR 0xB8, CHR 0xAD, CHR 0xEF, CHR 0xBC, CHR 0x8C, CHR 0xE5, CHR 0xB1, CHR 0x9E,
                 CHR 0xE4, CHR 0xBA, CHR 0x8E, CHR 0xE7, CHR 0xBA, CHR 0xAF, CHR 0xE5, CHR 0x87,
                 CHR 0x80, CHR 0xE7, CHR 0x89, CHR 0xA9, CHR 0xE7, CHR 0x9A, CHR 0x84, CHR 0xE6,
                 CHR 0x98, CHR 0xAF, CHR 0xEF, CHR 0xBC, CHR 0x88, CHR '' '', CHR '' '', CHR 0xEF,
                 CHR 0xBC, CHR 0x89, CHR 0x0A, CHR ''A'', CHR ''.'', CHR '' '', CHR 0xE7, CHR 0xA9,
                 CHR 0xBA, CHR 0xE6, CHR 0xB0, CHR 0x94, CHR 0x0A, CHR ''B'', CHR ''.'', CHR '' '',
                 CHR 0xE7, CHR 0x9B, CHR 0x90, CHR 0xE6, CHR 0xB0, CHR 0xB4, CHR 0x0A, CHR ''C'',
                 CHR ''.'', CHR '' '', CHR 0xE8, CHR 0x92, CHR 0xB8, CHR 0xE9, CHR 0xA6, CHR 0x8F,
                 CHR 0xE6, CHR 0xB0, CHR 0xB4, CHR 0x0A, CHR ''D'', CHR ''.'', CHR '' '', CHR 0xE7,
                 CHR 0x9F, CHR 0xBF, CHR 0xE6, CHR 0xB3, CHR 0x89, CHR 0xE6, CHR 0xB0, CHR 0xB4],
              confidence = 0.95, noiseFiltered = True, errorMessage = None,
              educationLevel = lvl\<rparr>,
          network_calls = 0, sleeps = [1500]\<rparr>"
  using assms
  by (simp add: extractQuestionFromImage_def mockExtraction_def MOCK_QUESTION_TEXT_def)

theorem mock_result_without_credential_witness:
  "\<not> isApiKeyConfigured None (Some '''')
   \<and> extractQuestionFromImage None (Some '''') example_parse
        (replies_then (Responds (Some ''{}'')) []) ''data:image/png;base64,AAAA'' elementary 3
      = \<lparr>outcome = Inr \<lparr>questionText =
                [CHR ''1'', CHR ''.'', CHR '' '', CHR 0xE4, CHR 0xB8, CHR 0x8B, CHR 0xE5, CHR 0x88,
                 CHR 0x97, CHR 0xE7, CHR 0x89, CHR 0xA9, CHR 0xE8, CHR 0xB4, CHR 0xA8, CHR 0xE4,
                 CHR 0xB8, CHR 0xAD, CHR 0xEF, CHR 0xBC, CHR 0x8C, CHR 0xE5, CHR 0xB1, CHR 0x9E,
                 CHR 0xE4, CHR 0xBA, CHR 0x8E, CHR 0xE7, CHR 0xBA, CHR 0xAF, CHR 0xE5, CHR 0x87,
                 CHR 0x80, CHR 0xE7, CHR 0x89, CHR 0xA9, CHR 0xE7, CHR 0x9A, CHR 0x84, CHR 0xE6,
                 CHR 0x98, CHR 0xAF, CHR 0xEF, CHR 0xBC, CHR 0x88, CHR '' '', CHR '' '', CHR 0xEF,
                 CHR 0xBC, CHR 0x89, CHR 0x0A, CHR ''A'', CHR ''.'', CHR '' '', CHR 0xE7, CHR 0xA9,
                 CHR 0xBA, CHR 0xE6, CHR 0xB0, CHR 0x94, CHR 0x0A, CHR ''B'', CHR ''.'', CHR '' '',
                 CHR 0xE7, CHR 0x9B, CHR 0x90, CHR 0xE6, CHR 0xB0, CHR 0xB4, CHR 0x0A, CHR ''C'',
                 CHR ''.'', CHR '' '', CHR 0xE8, CHR 0x92, CHR 0xB8, CHR 0xE9, CHR 0xA6, CHR 0x8F,
                 CHR 0xE6, CHR 0xB0, CHR 0xB4, CHR 0x0A, CHR ''D'', CHR ''.'', CHR '' '', CHR 0xE7,
                 CHR 0x9F, CHR 0xBF, CHR 0xE6, CHR 0xB3, CHR 0x89, CHR 0xE6, CHR 0xB0, CHR 0xB4],
              confidence = 0.95, noiseFiltered = True, errorMessage = None,
              educationLevel = elementary\<rparr>,
         network_calls = 0, sleeps = [1500]\<rparr>
   \<and> length (questionText (projr (outcome
        (extractQuestionFromImage None (Some '''') example_parse
           (replies_then (Responds (Some ''{}'')) []) ''data:image/png;base64,AAAA'' elementary 3))))
      = 96"
proof -
  have k: "\<not> isApiKeyConfigured None (Some '''')"
    by (simp add: isApiKeyConfigured_def)
  from mock_result_without_credential[OF k] k show ?thesis by simp
qed

section \<open>Validator\<close>

lemma show_nat_split:
  assumes "100 \<le> n"
  shows "show_nat n = show_nat (n div 100) @ [digit_char (n div 10 mod 10), digit_char (n mod 10)]"
proof -
  have "show_nat n = show_nat (n div 10) @ [digit_char (n mod 10)]"
    using assms by (subst show_nat.simps) simp
  also have "show_nat (n div 10) = show_nat (n div 10 div 10) @ [digit_char (n div 10 mod 10)]"
  proof -
    have "\<not> n div 10 < 10" using assms by presburger
    then show ?thesis by (subst show_nat.simps) simp
  qed
  also have "n div 10 div 10 = n div 100"
    by (simp add: div_mult2_eq[symmetric])
  finally show ?thesis by simp
qed

lemma show_nat_nonempty: "show_nat n \<noteq> []"
  by (subst show_nat.simps) simp

text \<open>From 1.00 on, \<^verbatim>\<open>toFixed(2)\<close> writes the nearest number of hundredths with two decimals.\<close>

lemma toFixed_2:
  assumes "100 \<le> nat \<lfloor>x * 100 + 1 / 2\<rfloor>"
  shows "Number_toFixed 2 x = decimal_2dp (nat \<lfloor>x * 100 + 1 / 2\<rfloor>)"
proof -
  define n where "n = nat \<lfloor>x * 100 + 1 / 2\<rfloor>"
  define a where "a = show_nat (n div 100)"
  have m: "show_nat n = a @ [digit_char (n div 10 mod 10), digit_char (n mod 10)]"
    using assms show_nat_split unfolding n_def a_def by blast
  have "a \<noteq> []" unfolding a_def by (rule show_nat_nonempty)
  then have len: "\<not> length (show_nat n) \<le> 2" unfolding m by (cases a) auto
  have "Number_toFixed 2 x =
        take (length (show_nat n) - 2) (show_nat n) @ ''.'' @ drop (length (show_nat n) - 2) (show_nat n)"
    using len by (simp add: Number_toFixed_def Let_def n_def)
  also have "\<dots> = a @ ''.'' @ [digit_char (n div 10 mod 10), digit_char (n mod 10)]"
    unfolding m by simp
  finally show ?thesis by (simp add: decimal_2dp_def a_def n_def)
qed

lemma hundredths_floor:
  "nat \<lfloor>(of_nat b / (1024 * 1024) :: rat) * 100 + 1 / 2\<rfloor> = hundredths_of_MiB b"
proof -
  have "(of_nat b / (1024 * 1024) :: rat) * 100 + 1 / 2 = of_nat (b * 100 + 524288) / of_nat 1048576"
    by (simp add: field_simps)
  then show ?thesis
    by (simp only: floor_divide_of_nat_eq hundredths_of_MiB_def nat_int)
qed

lemma hundredths_large: "5 * 1024 * 1024 < b \<Longrightarrow> 100 \<le> hundredths_of_MiB b"
  unfolding hundredths_of_MiB_def by (simp add: less_eq_div_iff_mult_less_eq)

lemma hundredths_nearest:
  "\<bar>of_nat (hundredths_of_MiB b) / 100 - of_nat b / (1024 * 1024)\<bar> \<le> (1 / 200 :: rat)"
proof -
  define n where "n = hundredths_of_MiB b"
  have lo: "1048576 * n \<le> b * 100 + 524288"
    unfolding n_def hundredths_of_MiB_def by simp
  have hi: "b * 100 + 524288 < 1048576 * (n + 1)"
    unfolding n_def hundredths_of_MiB_def
    using dividend_less_div_times[of 1048576 "b * 100 + 524288"] by simp
  have lo': "(1048576 :: rat) * of_nat n \<le> of_nat b * 100 + 524288"
    using lo by (metis (mono_tags, lifting) of_nat_le_iff of_nat_add of_nat_mult of_nat_numeral)
  have hi': "of_nat b * 100 + 524288 < (1048576 :: rat) * (of_nat n + 1)"
    using hi by (metis (mono_tags, lifting) of_nat_less_iff of_nat_add of_nat_mult of_nat_numeral of_nat_1)
  show ?thesis
    unfolding n_def[symmetric] using lo' hi' by (simp add: abs_le_iff field_simps)
qed

text \<open>
  Claim C8. \<^verbatim>\<open>validateImage\<close> checks the format before the size: a declared type outside
  the three supported ones gives the format failure, which carries the type, whatever the
  size; a supported type with a size above \<open>5 * 1024 * 1024\<close> bytes gives the size failure,
  which carries the size in MiB as a numeral with two decimals, the nearest hundredth of a
  MiB (it differs from the size by at most half a hundredth); anything else is valid. The
  size of a file is an integer that a JavaScript number holds exactly, below \<open>2\<^sup>5\<^sup>3\<close>.
\<close>

theorem validateImage_format_then_size:
  "(file_type file \<notin> {''image/jpeg'', ''image/png'', ''image/webp''} \<longrightarrow>
      validateImage file =
        \<lparr>isValid = False,
         ValidationResult.errorMessage =
           Some (''Invalid file format. Please upload an image file (JPEG, PNG, or WebP). Your file type: ''
                 @ file_type file)\<rparr>)
   \<and> (file_type file \<in> {''image/jpeg'', ''image/png'', ''image/webp''}
        \<and> 5 * 1024 * 1024 < file_size file \<and> file_size file < 2 ^ 53 \<longrightarrow>
      validateImage file =
        \<lparr>isValid = False,
         ValidationResult.errorMessage =
           Some (''Image is too large ('' @ decimal_2dp (hundredths_of_MiB (file_size file))
                 @ ''MB). Please use an image under 5MB.'')\<rparr>
      \<and> \<bar>of_nat (hundredths_of_MiB (file_size file)) / 100 - of_nat (file_size file) / (1024 * 1024)\<bar>
          \<le> (1 / 200 :: rat))
   \<and> (file_type file \<in> {''image/jpeg'', ''image/png'', ''image/webp''}
        \<and> file_size file \<le> 5 * 1024 * 1024 \<longrightarrow>
      validateImage file = \<lparr>isValid = True, ValidationResult.errorMessage = None\<rparr>)"
proof (intro conjI impI)
  assume "file_type file \<notin> {''image/jpeg'', ''image/png'', ''image/webp''}"
  then show "validateImage file =
        \<lparr>isValid = False,
         ValidationResult.errorMessage =
           Some (''Invalid file format. Please upload an image file (JPEG, PNG, or WebP). Your file type: ''
                 @ file_type file)\<rparr>"
    by (simp add: validateImage_def validateImageFormat_def SUPPORTED_FORMATS_def Let_def)
next
  assume a: "file_type file \<in> {''image/jpeg'', ''image/png'', ''image/webp''}
        \<and> 5 * 1024 * 1024 < file_size file \<and> file_size file < 2 ^ 53"
  then have big: "5 * 1024 * 1024 < file_size file" by simp
  have "Number_toFixed 2 (of_nat (file_size file) / (1024 * 1024))
        = decimal_2dp (hundredths_of_MiB (file_size file))"
    using toFixed_2[of "of_nat (file_size file) / (1024 * 1024)"] hundredths_large[OF big]
    by (simp only: hundredths_floor)
  then show "validateImage file =
        \<lparr>isValid = False,
         ValidationResult.errorMessage =
           Some (''Image is too large ('' @ decimal_2dp (hundredths_of_MiB (file_size file))
                 @ ''MB). Please use an image under 5MB.'')\<rparr>"
    using a
    by (simp add: validateImage_def validateImageFormat_def validateImageSize_def
          SUPPORTED_FORMATS_def MAX_FILE_SIZE_def Let_def)
  show "\<bar>of_nat (hundredths_of_MiB (file_size file)) / 100 - of_nat (file_size file) / (1024 * 1024)\<bar>
          \<le> (1 / 200 :: rat)"
    by (rule hundredths_nearest)
next
  assume "file_type file \<in> {''image/jpeg'', ''image/png'', ''image/webp''}
        \<and> file_size file \<le> 5 * 1024 * 1024"
  then show "validateImage file = \<lparr>isValid = True, ValidationResult.errorMessage = None\<rparr>"
    by (simp add: validateImage_def validateImageFormat_def validateImageSize_def
          SUPPORTED_FORMATS_def MAX_FILE_SIZE_def Let_def)
qed

theorem validateImage_format_then_size_witness:
  "validateImage \<lparr>file_type = ''application/pdf'', file_size = 52428800\<rparr>
     = \<lparr>isValid = False,
        ValidationResult.errorMessage =
          Some ''Invalid file format. Please upload an image file (JPEG, PNG, or WebP). Your file type: application/pdf''\<rparr>
   \<and> validateImage \<lparr>file_type = ''image/png'', file_size = 5248123\<rparr>
     = \<lparr>isValid = False,
        ValidationResult.errorMessage =
          Some ''Image is too large (5.01MB). Please use an image under 5MB.''\<rparr>
   \<and> validateImage \<lparr>file_type = ''image/webp'', file_size = 5242880\<rparr>
     = \<lparr>isValid = True, ValidationResult.errorMessage = None\<rparr>"
proof -
  have h: "hundredths_of_MiB 5248123 = 501"
    by (simp add: hundredths_of_MiB_def)
  have d: "decimal_2dp (hundredths_of_MiB 5248123) = ''5.01''"
    unfolding h by code_simp
  from validateImage_format_then_size[of "\<lparr>file_type = ''application/pdf'', file_size = 52428800\<rparr>"]
       validateImage_format_then_size[of "\<lparr>file_type = ''image/png'', file_size = 5248123\<rparr>"]
       validateImage_format_then_size[of "\<lparr>file_type = ''image/webp'', file_size = 5242880\<rparr>"]
  show ?thesis
    by (simp add: d)
qed

section \<open>Compressor\<close>

text \<open>
  The edge that is scaled down. Rounding is monotone, leaves 1 and 1200 as they are, and
  has relative error at most \<open>u\<close> on the numbers that occur; the short edge \<open>s\<close> and the long
  edge \<open>l\<close> are pixel counts.
\<close>

lemma scaled_edge:
  fixes rnd :: "real \<Rightarrow> real" and u s l :: real
  assumes mono: "\<And>x y. x \<le> y \<Longrightarrow> rnd x \<le> rnd y"
    and one: "rnd 1 = 1" and top: "rnd 1200 = 1200"
    and err: "\<And>x. 1 / 2 ^ 33 \<le> x \<Longrightarrow> x \<le> 1200 \<Longrightarrow> \<bar>rnd x - x\<bar> \<le> u * x"
    and u: "0 \<le> u" "u \<le> 1 / 2"
    and s: "1 \<le> s" "s \<le> l" "l < 2 ^ 32"
  shows "0 < rnd (rnd (s / l) * 1200)"
    and "rnd (rnd (s / l) * 1200) \<le> 1200"
    and "\<bar>rnd (rnd (s / l) * 1200) * l - 1200 * s\<bar> \<le> (2 * u + u\<^sup>2) * 1200 * s"
proof -
  define a where "a = s / l"
  define b where "b = rnd a"
  define c where "c = b * 1200"
  have l: "0 < l" using s by linarith
  have a_le: "a \<le> 1" unfolding a_def using s l by simp
  have "1 / l > 1 / 2 ^ 32" using s l by (simp add: frac_less2)
  moreover have "s / l \<ge> 1 / l" using s l by (simp add: divide_right_mono)
  ultimately have a_ge: "1 / 2 ^ 32 < a" unfolding a_def by linarith
  have a_pos: "0 < a"
    using a_ge by (smt (verit) zero_less_divide_1_iff zero_less_numeral zero_less_power)
  have ea: "\<bar>b - a\<bar> \<le> u * a" unfolding b_def using err[of a] a_ge a_le by simp
  have b_le: "b \<le> 1" unfolding b_def using mono[OF a_le] one by simp
  have ua: "u * a \<le> a / 2" using u a_pos by (simp add: mult_right_mono)
  have b_ge: "a / 2 \<le> b" using ea ua by linarith
  have c_le: "c \<le> 1200" unfolding c_def using b_le by simp
  have c_ge: "1 / 2 ^ 33 \<le> c" unfolding c_def using b_ge a_ge by simp
  have c_pos: "0 < c"
    using c_ge by (smt (verit) zero_less_divide_1_iff zero_less_numeral zero_less_power)
  have ec: "\<bar>rnd c - c\<bar> \<le> u * c" using err[OF c_ge c_le] .
  have "u * c \<le> c / 2" using u c_pos by (simp add: mult_right_mono)
  then have "c / 2 \<le> rnd c" using ec by linarith
  then show "0 < rnd (rnd (s / l) * 1200)" using c_pos unfolding c_def b_def a_def by linarith
  show "rnd (rnd (s / l) * 1200) \<le> 1200"
    using mono[OF c_le] top unfolding c_def b_def a_def by simp
  have b_up: "b \<le> a * (1 + u)" using ea by (simp add: algebra_simps)
  have "u * c \<le> u * (1200 * (a * (1 + u)))"
    unfolding c_def using b_up u by (intro mult_left_mono) simp_all
  moreover have "\<bar>c - 1200 * a\<bar> \<le> 1200 * (u * a)"
    unfolding c_def using ea by linarith
  ultimately have "\<bar>rnd c - 1200 * a\<bar> \<le> u * (1200 * (a * (1 + u))) + 1200 * (u * a)"
    using ec by linarith
  also have "\<dots> = (2 * u + u\<^sup>2) * 1200 * a" by (simp add: algebra_simps power2_eq_square)
  finally have "\<bar>rnd c - 1200 * a\<bar> * l \<le> (2 * u + u\<^sup>2) * 1200 * a * l"
    using l by (simp add: mult_right_mono)
  moreover have "\<bar>rnd c - 1200 * a\<bar> * l = \<bar>rnd c * l - 1200 * s\<bar>"
  proof -
    have "\<bar>rnd c - 1200 * a\<bar> * l = \<bar>(rnd c - 1200 * a) * l\<bar>"
      using l by (simp add: abs_mult)
    also have "(rnd c - 1200 * a) * l = rnd c * l - 1200 * s"
      using l by (simp add: a_def left_diff_distrib)
    finally show ?thesis .
  qed
  moreover have "(2 * u + u\<^sup>2) * 1200 * a * l = (2 * u + u\<^sup>2) * 1200 * s"
    using l by (simp add: a_def)
  ultimately have "\<bar>rnd c * l - 1200 * s\<bar> \<le> (2 * u + u\<^sup>2) * 1200 * s"
    by (simp only:)
  then show "\<bar>rnd (rnd (s / l) * 1200) * l - 1200 * s\<bar> \<le> (2 * u + u\<^sup>2) * 1200 * s"
    unfolding c_def b_def a_def .
qed

lemma to_unsigned_long_pixels:
  assumes "0 \<le> x" "x \<le> 1200"
  shows "to_unsigned_long x \<le> 1200"
    and "real (to_unsigned_long x) \<le> x"
    and "x < real (to_unsigned_long x) + 1"
proof -
  have f0: "0 \<le> \<lfloor>x\<rfloor>" using assms by simp
  have f1: "\<lfloor>x\<rfloor> \<le> 1200" using assms by (simp add: floor_le_iff)
  then have m: "\<lfloor>x\<rfloor> mod 2 ^ 32 = \<lfloor>x\<rfloor>" using f0 by simp
  have eq: "to_unsigned_long x = nat \<lfloor>x\<rfloor>"
    using assms by (simp add: to_unsigned_long_def m)
  have "nat \<lfloor>x\<rfloor> \<le> nat 1200" using f1 by (rule nat_mono)
  then show "to_unsigned_long x \<le> 1200" unfolding eq by simp
  show "real (to_unsigned_long x) \<le> x" unfolding eq using f0 by simp
  show "x < real (to_unsigned_long x) + 1" unfolding eq using f0 by simp
qed

lemma to_unsigned_long_of_nat:
  assumes "n < 2 ^ 32"
  shows "to_unsigned_long (real n) = n"
proof -
  have "int n mod 2 ^ 32 = int n" using assms by simp
  then show ?thesis by (simp add: to_unsigned_long_def)
qed

text \<open>
  Claim C9. For a source image of positive width and height, under floating-point rounding
  \<open>rnd\<close> that is monotone, exact on 1 and 1200, and of relative error at most \<open>u\<close>, the
  dimensions \<^verbatim>\<open>compressImage\<close> computes, and the canvas dimensions they become, are at
  most 1200; they are the source dimensions when both of those are at most 1200; and the
  aspect ratio is kept up to rounding: the cross products of computed and source
  dimensions differ by at most the relative error of the two roundings, and a canvas
  dimension is the computed one less its fraction.
\<close>

theorem compressImage_dimensions_bounded:
  fixes rnd :: "real \<Rightarrow> real" and u :: real
  assumes mono: "\<And>x y. x \<le> y \<Longrightarrow> rnd x \<le> rnd y"
    and one: "rnd 1 = 1" and top: "rnd 1200 = 1200"
    and err: "\<And>x. 1 / 2 ^ 33 \<le> x \<Longrightarrow> x \<le> 1200 \<Longrightarrow> \<bar>rnd x - x\<bar> \<le> u * x"
    and u: "0 \<le> u" "u \<le> 1 / 2"
    and pos: "0 < w" "0 < h" and ul: "w < 2 ^ 32" "h < 2 ^ 32"
    and d: "d = compressImage_dimensions rnd w h"
  shows "width d \<le> 1200 \<and> height d \<le> 1200
       \<and> canvas_width d \<le> 1200 \<and> canvas_height d \<le> 1200
       \<and> (w \<le> 1200 \<and> h \<le> 1200 \<longrightarrow>
            width d = real w \<and> height d = real h \<and> canvas_width d = w \<and> canvas_height d = h)
       \<and> \<bar>width d * real h - height d * real w\<bar> \<le> (2 * u + u\<^sup>2) * 1200 * real (min w h)
       \<and> real (canvas_width d) \<le> width d \<and> width d < real (canvas_width d) + 1
       \<and> real (canvas_height d) \<le> height d \<and> height d < real (canvas_height d) + 1"
proof -
  have K: "0 \<le> (2 * u + u\<^sup>2) * 1200 * real (min w h)" using u by simp
  have c1200: "to_unsigned_long 1200 = 1200"
    using to_unsigned_long_of_nat[of 1200] by simp
  consider (small) "w \<le> 1200" "h \<le> 1200"
    | (wide) "\<not> (w \<le> 1200 \<and> h \<le> 1200)" "h < w"
    | (tall) "\<not> (w \<le> 1200 \<and> h \<le> 1200)" "w \<le> h"
    by linarith
  then show ?thesis
  proof cases
    case small
    then have "d = \<lparr>width = real w, height = real h, canvas_width = w, canvas_height = h\<rparr>"
      using ul by (simp add: d compressImage_dimensions_def Let_def to_unsigned_long_of_nat)
    then show ?thesis using small K by (simp add: mult.commute)
  next
    case wide
    define e where "e = rnd (rnd (real h / real w) * 1200)"
    have dd: "d = \<lparr>width = 1200, height = e, canvas_width = 1200,
                   canvas_height = to_unsigned_long e\<rparr>"
      using wide by (auto simp: d compressImage_dimensions_def Let_def e_def c1200)
    have s: "1 \<le> real h" "real h \<le> real w" "real w < 2 ^ 32"
      using pos wide ul by simp_all
    note E = scaled_edge[OF mono one top err u s, folded e_def]
    note P = to_unsigned_long_pixels[of e]
    have "\<bar>1200 * real h - e * real w\<bar> \<le> (2 * u + u\<^sup>2) * 1200 * real h"
      using E(3) by (simp add: abs_minus_commute)
    moreover have "min w h = h" using wide by simp
    ultimately show ?thesis
      using wide E(1,2) P by (simp add: dd)
  next
    case tall
    define e where "e = rnd (rnd (real w / real h) * 1200)"
    have dd: "d = \<lparr>width = e, height = 1200, canvas_width = to_unsigned_long e,
                   canvas_height = 1200\<rparr>"
      using tall by (auto simp: d compressImage_dimensions_def Let_def e_def c1200)
    have s: "1 \<le> real w" "real w \<le> real h" "real h < 2 ^ 32"
      using pos tall ul by simp_all
    note E = scaled_edge[OF mono one top err u s, folded e_def]
    note P = to_unsigned_long_pixels[of e]
    have "min w h = w" using tall by simp
    moreover have "\<not> h \<le> 1200" using tall by linarith
    ultimately show ?thesis
      using E P by (simp add: dd)
  qed
qed

theorem compressImage_dimensions_bounded_witness:
  "(0::nat) < 1000 \<and> (0::nat) < 1300 \<and> (1000::nat) < 2 ^ 32 \<and> (1300::nat) < 2 ^ 32
   \<and> compressImage_dimensions (\<lambda>x. x) 1000 1300
       = \<lparr>width = 12000 / 13, height = 1200, canvas_width = 923, canvas_height = 1200\<rparr>
   \<and> width (compressImage_dimensions (\<lambda>x. x) 1000 1300) \<le> 1200
   \<and> height (compressImage_dimensions (\<lambda>x. x) 1000 1300) \<le> 1200
   \<and> canvas_width (compressImage_dimensions (\<lambda>x. x) 1000 1300) \<le> 1200
   \<and> canvas_height (compressImage_dimensions (\<lambda>x. x) 1000 1300) \<le> 1200
   \<and> \<bar>width (compressImage_dimensions (\<lambda>x. x) 1000 1300) * 1300
        - height (compressImage_dimensions (\<lambda>x. x) 1000 1300) * 1000\<bar> \<le> 0"
proof -
  have f: "\<lfloor>12000 / 13 :: real\<rfloor> = 923"
    by (simp add: floor_eq_iff)
  have v: "compressImage_dimensions (\<lambda>x. x) 1000 1300
       = \<lparr>width = 12000 / 13, height = 1200, canvas_width = 923, canvas_height = 1200\<rparr>"
    by (simp add: compressImage_dimensions_def to_unsigned_long_def f)
  from compressImage_dimensions_bounded[of "\<lambda>x. x" 0 1000 1300
         "compressImage_dimensions (\<lambda>x. x) 1000 1300"]
  have "width (compressImage_dimensions (\<lambda>x. x) 1000 1300) \<le> 1200
      \<and> height (compressImage_dimensions (\<lambda>x. x) 1000 1300) \<le> 1200
      \<and> canvas_width (compressImage_dimensions (\<lambda>x. x) 1000 1300) \<le> 1200
      \<and> canvas_height (compressImage_dimensions (\<lambda>x. x) 1000 1300) \<le> 1200
      \<and> \<bar>width (compressImage_dimensions (\<lambda>x. x) 1000 1300) * 1300
           - height (compressImage_dimensions (\<lambda>x. x) 1000 1300) * 1000\<bar> \<le> 0"
    by simp
  with v show ?thesis by simp
qed

end
